theory Spec2Isabelle
  imports Complex_Main
begin

section \<open>Cup warmer: PID temperature control and heating scheduler\<close>

text \<open>
  The development embeds three C translation units of the cup warmer firmware:
  \<^verbatim>\<open>components/temp_control/pid.c\<close>, \<^verbatim>\<open>components/temp_control/temp_control.c\<close> and
  \<^verbatim>\<open>components/scheduler/scheduler.c\<close>.

  Conventions of the embedding.
  \<^item> A C \<^verbatim>\<open>float\<close> is a HOL \<^typ>\<open>real\<close>: the control law is read over exact, finite,
    ordered numbers. Rounding, infinities and NaN are outside the model; every
    comparison of the source is the order of the reals.
  \<^item> A C \<^verbatim>\<open>int\<close> is a HOL \<^typ>\<open>int\<close>. The values that occur (a 12 bit ADC count
    times 3300, at most 240 minutes times 60) stay far inside 32 bits.
  \<^item> The file-level \<^verbatim>\<open>static\<close> variables of a translation unit are the fields of one
    record, passed in and returned by every function that touches them.
  \<^item> A function body that runs under the module's mutex is one atomic state
    transformer.
\<close>

subsection \<open>pid.c\<close>

record pid_controller_t =
  kp :: real
  ki :: real
  kd :: real
  setpoint :: real
  integral :: real
  prev_error :: real
  output_min :: real
  output_max :: real
  integral_max :: real

definition pid_init :: "real \<Rightarrow> real \<Rightarrow> real \<Rightarrow> pid_controller_t" where
  "pid_init p i d =
     \<lparr> kp = p, ki = i, kd = d,
       setpoint = 0, integral = 0, prev_error = 0,
       output_min = 0, output_max = 100, integral_max = 50 \<rparr>"

definition pid_set_setpoint :: "pid_controller_t \<Rightarrow> real \<Rightarrow> pid_controller_t" where
  "pid_set_setpoint pid sp = pid\<lparr>setpoint := sp\<rparr>"

definition pid_set_output_limits :: "pid_controller_t \<Rightarrow> real \<Rightarrow> real \<Rightarrow> pid_controller_t" where
  "pid_set_output_limits pid lo hi = pid\<lparr>output_min := lo, output_max := hi\<rparr>"

text \<open>
  \<^verbatim>\<open>pid_compute\<close> mutates the controller through its pointer and returns the output;
  the model returns the output together with the updated controller. The statements
  of the body are kept in their order: the integral is accumulated and limited, the
  derivative term is taken against the old \<^verbatim>\<open>prev_error\<close>, then \<^verbatim>\<open>prev_error\<close> is
  overwritten, then the sum is limited, upper bound first.
\<close>

definition pid_compute :: "pid_controller_t \<Rightarrow> real \<Rightarrow> real \<times> pid_controller_t" where
  "pid_compute pid current =
     (let error = setpoint pid - current;
          p_term = kp pid * error;
          pid1 = pid\<lparr>integral := integral pid + error\<rparr>;
          pid2 = (if integral pid1 > integral_max pid1
                  then pid1\<lparr>integral := integral_max pid1\<rparr>
                  else if integral pid1 < - integral_max pid1
                  then pid1\<lparr>integral := - integral_max pid1\<rparr>
                  else pid1);
          i_term = ki pid2 * integral pid2;
          d_term = kd pid2 * (error - prev_error pid2);
          pid3 = pid2\<lparr>prev_error := error\<rparr>;
          output = p_term + i_term + d_term;
          output' = (if output > output_max pid3 then output_max pid3
                     else if output < output_min pid3 then output_min pid3
                     else output)
      in (output', pid3))"

definition pid_reset :: "pid_controller_t \<Rightarrow> pid_controller_t" where
  "pid_reset pid = pid\<lparr>integral := 0, prev_error := 0\<rparr>"

text \<open>A sequence of \<^verbatim>\<open>pid_compute\<close> calls on one controller, outputs discarded.\<close>

fun pid_compute_seq :: "pid_controller_t \<Rightarrow> real list \<Rightarrow> pid_controller_t" where
  "pid_compute_seq pid [] = pid"
| "pid_compute_seq pid (c # cs) = pid_compute_seq (snd (pid_compute pid c)) cs"

text \<open>
  The reading of ``clamped to \<open>[lo, hi]\<close>'' that the properties below compare the
  source against. On an interval with \<open>lo \<le> hi\<close> it is the nearest point of the
  interval; on an empty interval the upper bound is tested first.
\<close>

definition clamp :: "real \<Rightarrow> real \<Rightarrow> real \<Rightarrow> real" where
  "clamp x lo hi = (if hi < x then hi else if x < lo then lo else x)"

subsection \<open>temp\_control.c\<close>

datatype temp_state_t =
  TEMP_STATE_IDLE | TEMP_STATE_HEATING | TEMP_STATE_KEEPING | TEMP_STATE_ERROR

definition CONFIG_TEMP_MIN :: int where "CONFIG_TEMP_MIN = 30"
definition CONFIG_TEMP_MAX :: int where "CONFIG_TEMP_MAX = 90"
definition CONFIG_TEMP_HARD_LIMIT :: int where "CONFIG_TEMP_HARD_LIMIT = 95"
definition CONFIG_PID_KP :: int where "CONFIG_PID_KP = 200"
definition CONFIG_PID_KI :: int where "CONFIG_PID_KI = 10"
definition CONFIG_PID_KD :: int where "CONFIG_PID_KD = 50"

definition NTC_BETA :: real where "NTC_BETA = 3950"
definition NTC_R25 :: real where "NTC_R25 = 10000"
definition NTC_SERIES_R :: real where "NTC_SERIES_R = 10000"
definition NTC_VREF_MV :: real where "NTC_VREF_MV = 3300"

text \<open>
  The statics of \<^verbatim>\<open>temp_control.c\<close>. \<open>heater_duty\<close> is the duty register of the LEDC
  channel that drives the heater (0 to 1023), the actuator output.
\<close>

record temp_control =
  s_cali_enabled :: bool
  s_pid :: pid_controller_t
  s_power_on :: bool
  s_target_temp :: int
  s_current_temp :: real
  s_is_heating :: bool
  s_state :: temp_state_t
  s_sensor_ok :: bool
  heater_duty :: nat

text \<open>
  What the ADC driver hands to one call of \<^verbatim>\<open>read_ntc_temperature\<close>: whether
  \<^verbatim>\<open>adc_oneshot_read\<close> returned \<^verbatim>\<open>ESP_OK\<close>, the raw count, and the content of the
  local \<^verbatim>\<open>voltage_mv\<close> after \<^verbatim>\<open>adc_cali_raw_to_voltage\<close> (read only when calibration
  is enabled).
\<close>

record adc_sample =
  adc_read_ok :: bool
  adc_raw :: int
  cali_voltage_mv :: int

text \<open>C integer division truncates toward zero.\<close>

definition c_div :: "int \<Rightarrow> int \<Rightarrow> int" where
  "c_div a b = sgn a * sgn b * (\<bar>a\<bar> div \<bar>b\<bar>)"

definition ntc_voltage_mv :: "bool \<Rightarrow> adc_sample \<Rightarrow> int" where
  "ntc_voltage_mv cali smp =
     (if cali then cali_voltage_mv smp else c_div (adc_raw smp * 3300) 4095)"

text \<open>The divider and B-value formulas at the end of \<^verbatim>\<open>read_ntc_temperature\<close>.\<close>

definition ntc_celsius :: "int \<Rightarrow> real" where
  "ntc_celsius voltage_mv =
     (let v_ntc = real_of_int voltage_mv;
          r_ntc = NTC_SERIES_R * v_ntc / (NTC_VREF_MV - v_ntc);
          t25_kelvin = 25 + 273.15;
          temp_kelvin = 1 / (1 / t25_kelvin + (1 / NTC_BETA) * ln (r_ntc / NTC_R25));
          temp_celsius = temp_kelvin - 273.15
      in temp_celsius)"

text \<open>
  \<^verbatim>\<open>read_ntc_temperature\<close> returns the temperature, or the sentinel \<open>-999\<close> on a fault,
  and writes \<^verbatim>\<open>s_sensor_ok\<close> on every path.
\<close>

definition read_ntc_temperature :: "adc_sample \<Rightarrow> temp_control \<Rightarrow> real \<times> temp_control" where
  "read_ntc_temperature smp s =
     (if \<not> adc_read_ok smp then (- 999, s\<lparr>s_sensor_ok := False\<rparr>)
      else let voltage_mv = ntc_voltage_mv (s_cali_enabled s) smp
           in if voltage_mv < 100 \<or> voltage_mv > 3200
              then (- 999, s\<lparr>s_sensor_ok := False\<rparr>)
              else (ntc_celsius voltage_mv, s\<lparr>s_sensor_ok := True\<rparr>))"

text \<open>The reading is flagged invalid exactly when the call leaves \<^verbatim>\<open>s_sensor_ok\<close> false.\<close>

definition reading_valid :: "bool \<Rightarrow> adc_sample \<Rightarrow> bool" where
  "reading_valid cali smp \<longleftrightarrow>
     adc_read_ok smp \<and> 100 \<le> ntc_voltage_mv cali smp \<and> ntc_voltage_mv cali smp \<le> 3200"

definition set_heater_duty :: "real \<Rightarrow> temp_control \<Rightarrow> temp_control" where
  "set_heater_duty duty_percent s =
     (let d1 = (if duty_percent < 0 then 0 else duty_percent);
          d2 = (if d1 > 100 then 100 else d1)
      in s\<lparr>heater_duty := nat \<lfloor>d2 * 10.23\<rfloor>\<rparr>)"

text \<open>
  One iteration of the \<^verbatim>\<open>while (1)\<close> loop of \<^verbatim>\<open>temp_control_task\<close>: a control tick.
  The two early \<^verbatim>\<open>continue\<close> branches come first, in the order of the source: the
  hard limit, then the sensor fault.
\<close>

definition temp_control_task :: "adc_sample \<Rightarrow> temp_control \<Rightarrow> temp_control" where
  "temp_control_task smp s0 =
     (let (temp, s1) = read_ntc_temperature smp s0;
          s = (if s_sensor_ok s1 then s1\<lparr>s_current_temp := temp\<rparr> else s1)
      in if s_current_temp s \<ge> real_of_int CONFIG_TEMP_HARD_LIMIT
         then set_heater_duty 0
                (s\<lparr>s_power_on := False, s_is_heating := False, s_state := TEMP_STATE_IDLE\<rparr>)
         else if \<not> s_sensor_ok s
         then set_heater_duty 0 (s\<lparr>s_is_heating := False, s_state := TEMP_STATE_ERROR\<rparr>)
         else if s_power_on s
         then let pid1 = pid_set_setpoint (s_pid s) (real_of_int (s_target_temp s));
                  (output, pid2) = pid_compute pid1 (s_current_temp s);
                  sa = set_heater_duty output (s\<lparr>s_pid := pid2\<rparr>);
                  sb = sa\<lparr>s_is_heating := (output > 5)\<rparr>
              in sb\<lparr>s_state := (if s_is_heating sb then TEMP_STATE_HEATING
                                 else TEMP_STATE_KEEPING)\<rparr>
         else (set_heater_duty 0 s)
                \<lparr>s_is_heating := False, s_state := TEMP_STATE_IDLE,
                 s_pid := pid_reset (s_pid s)\<rparr>)"

text \<open>
  The statics after \<^verbatim>\<open>temp_control_init\<close>: the initialisers of the declarations, the
  controller from \<^verbatim>\<open>pid_init\<close> with the gains divided by 100, and the duty 0 of
  \<^verbatim>\<open>pwm_init\<close>. Whether the ADC calibration scheme could be created is the parameter.
\<close>

definition temp_control_init :: "bool \<Rightarrow> temp_control" where
  "temp_control_init cali =
     \<lparr> s_cali_enabled = cali,
       s_pid = pid_set_output_limits
                 (pid_init (real_of_int CONFIG_PID_KP / 100) (real_of_int CONFIG_PID_KI / 100)
                           (real_of_int CONFIG_PID_KD / 100)) 0 100,
       s_power_on = False, s_target_temp = 55, s_current_temp = 25,
       s_is_heating = False, s_state = TEMP_STATE_IDLE, s_sensor_ok = True,
       heater_duty = 0 \<rparr>"

definition temp_control_set_power :: "bool \<Rightarrow> temp_control \<Rightarrow> temp_control" where
  "temp_control_set_power on s =
     (let s1 = s\<lparr>s_power_on := on\<rparr>
      in if \<not> on then (set_heater_duty 0 s1)\<lparr>s_pid := pid_reset (s_pid s1)\<rparr> else s1)"

definition temp_control_get_power :: "temp_control \<Rightarrow> bool" where
  "temp_control_get_power s = s_power_on s"

definition temp_control_set_target_temp :: "int \<Rightarrow> temp_control \<Rightarrow> temp_control" where
  "temp_control_set_target_temp temp s =
     (let t1 = (if temp < CONFIG_TEMP_MIN then CONFIG_TEMP_MIN else temp);
          t2 = (if t1 > CONFIG_TEMP_MAX then CONFIG_TEMP_MAX else t1)
      in s\<lparr>s_target_temp := t2\<rparr>)"

definition temp_control_get_current_temp :: "temp_control \<Rightarrow> real" where
  "temp_control_get_current_temp s = s_current_temp s"

definition temp_control_get_state :: "temp_control \<Rightarrow> temp_state_t" where
  "temp_control_get_state s = s_state s"

definition temp_control_is_sensor_ok :: "temp_control \<Rightarrow> bool" where
  "temp_control_is_sensor_ok s = s_sensor_ok s"

text \<open>
  What can happen to the statics of \<^verbatim>\<open>temp_control.c\<close>: a control tick with the ADC
  sample it receives, or a call of one of the two setters. The getters only read.
\<close>

datatype control_event =
  Tick adc_sample | SetPower bool | SetTargetTemp int

fun control_step :: "control_event \<Rightarrow> temp_control \<Rightarrow> temp_control" where
  "control_step (Tick smp) s = temp_control_task smp s"
| "control_step (SetPower on) s = temp_control_set_power on s"
| "control_step (SetTargetTemp t) s = temp_control_set_target_temp t s"

fun control_run :: "temp_control \<Rightarrow> control_event list \<Rightarrow> temp_control" where
  "control_run s [] = s"
| "control_run s (e # es) = control_run (control_step e s) es"

text \<open>The invariant of the control state as the specification words it.\<close>

definition control_invariant :: "temp_control \<Rightarrow> bool" where
  "control_invariant s \<longleftrightarrow>
     (\<not> s_sensor_ok s \<longrightarrow> s_state s = TEMP_STATE_ERROR)
   \<and> (\<not> s_power_on s \<longrightarrow> s_state s = TEMP_STATE_IDLE)"

subsection \<open>scheduler.c\<close>

definition CONFIG_MAX_HEATING_TIME_MINUTES :: int where
  "CONFIG_MAX_HEATING_TIME_MINUTES = 240"

definition CONFIG_PREHEAT_TIME_MINUTES :: int where
  "CONFIG_PREHEAT_TIME_MINUTES = 5"

datatype scheduler_state_t =
  SCHED_STATE_IDLE | SCHED_STATE_TIMER_RUNNING | SCHED_STATE_SCHEDULED | SCHED_STATE_TIMEOUT

text \<open>
  The statics of \<^verbatim>\<open>scheduler.c\<close>. The module's \<^verbatim>\<open>s_state\<close> is \<open>s_sched_state\<close> here
  (the name is taken by \<^verbatim>\<open>temp_control.c\<close>). The function pointer
  \<^verbatim>\<open>s_timeout_callback\<close> is modelled by whether it is non-null, and
  \<open>timeout_callback_calls\<close> counts how often it has been called; the handler that
  \<^verbatim>\<open>main.c\<close> registers only writes a log line.
\<close>

record scheduler =
  s_timer_duration :: int
  s_timer_remaining :: int
  s_timer_seconds :: int
  s_timer_running :: bool
  s_schedule_time :: string
  s_schedule_active :: bool
  s_sched_state :: scheduler_state_t
  s_timeout_callback :: bool
  timeout_callback_calls :: nat

text \<open>
  The scheduler reads and writes the power flag of the control loop through
  \<^verbatim>\<open>temp_control_get_power\<close> and \<^verbatim>\<open>temp_control_set_power\<close>, so its functions that
  do so work on the statics of both modules.
\<close>

record firmware =
  temp_ctl :: temp_control
  sched :: scheduler

record rtc_time_t =
  year :: int
  month :: int
  day :: int
  hour :: int
  minute :: int
  second :: int
  weekday :: int

subsubsection \<open>\<^verbatim>\<open>sscanf(time_str, "%d:%d", hour, minute)\<close>\<close>

definition isspace :: "char \<Rightarrow> bool" where
  "isspace c \<longleftrightarrow> c \<in> set [CHR '' '', CHR 0x09, CHR 0x0A, CHR 0x0B, CHR 0x0C, CHR 0x0D]"

definition isdigit :: "char \<Rightarrow> bool" where
  "isdigit c \<longleftrightarrow> (48::nat) \<le> of_char c \<and> of_char c \<le> (57::nat)"

definition digit_value :: "char \<Rightarrow> int" where
  "digit_value c = int (of_char c) - 48"

fun scan_digits :: "int \<Rightarrow> string \<Rightarrow> int \<times> string" where
  "scan_digits acc [] = (acc, [])"
| "scan_digits acc (c # cs) =
     (if isdigit c then scan_digits (acc * 10 + digit_value c) cs else (acc, c # cs))"

text \<open>
  One \<^verbatim>\<open>%d\<close> conversion: white space is skipped, an optional sign is read, then at
  least one decimal digit is required. The result is the value and the unread rest,
  or \<open>None\<close> on a matching failure. The value is not reduced to 32 bits: the C
  standard leaves a conversion that overflows \<^verbatim>\<open>int\<close> undefined.
\<close>

definition scan_d :: "string \<Rightarrow> (int \<times> string) option" where
  "scan_d str =
     (let s1 = dropWhile isspace str;
          neg = (s1 \<noteq> [] \<and> hd s1 = CHR ''-'');
          s2 = (if s1 \<noteq> [] \<and> (hd s1 = CHR ''-'' \<or> hd s1 = CHR ''+'') then tl s1 else s1)
      in if s2 \<noteq> [] \<and> isdigit (hd s2)
         then let (v, rest) = scan_digits 0 s2 in Some (if neg then - v else v, rest)
         else None)"

text \<open>
  The call with the format \<^verbatim>\<open>"%d:%d"\<close>. The model returns the values converted, in
  order: their number is the return value of \<^verbatim>\<open>sscanf\<close> where that is positive, and
  the empty list stands for the returns 0 and \<^verbatim>\<open>EOF\<close>. The colon of the format
  matches exactly one colon of the input, with no white space skipped before it.
\<close>

definition sscanf_d_colon_d :: "string \<Rightarrow> int list" where
  "sscanf_d_colon_d str =
     (case scan_d str of
        None \<Rightarrow> []
      | Some (h, r1) \<Rightarrow>
          if r1 \<noteq> [] \<and> hd r1 = CHR '':''
          then (case scan_d (tl r1) of None \<Rightarrow> [h] | Some (m, r2) \<Rightarrow> [h, m])
          else [h])"

text \<open>
  \<^verbatim>\<open>parse_schedule_time\<close> returns \<^verbatim>\<open>true\<close> and fills \<^verbatim>\<open>*hour\<close> and \<^verbatim>\<open>*minute\<close>, or
  returns \<^verbatim>\<open>false\<close>; the model returns the pair or \<open>None\<close>. A null pointer is the
  argument \<open>None\<close>.
\<close>

definition parse_schedule_time :: "string option \<Rightarrow> (int \<times> int) option" where
  "parse_schedule_time time_str =
     (case time_str of
        None \<Rightarrow> None
      | Some str \<Rightarrow>
          if length str < 5 then None
          else (case sscanf_d_colon_d str of
                  [h, m] \<Rightarrow>
                    if h \<ge> 0 \<and> h \<le> 23 \<and> m \<ge> 0 \<and> m \<le> 59 then Some (h, m) else None
                | _ \<Rightarrow> None))"

text \<open>
  \<^verbatim>\<open>snprintf(s_schedule_time, 8, "%02d:%02d", hour, minute)\<close> on the only values that
  reach it, \<open>0 \<le> hour \<le> 23\<close> and \<open>0 \<le> minute \<le> 59\<close>: two digits each, five
  characters, no truncation.
\<close>

definition digit_char :: "int \<Rightarrow> char" where
  "digit_char d = char_of (48 + nat d)"

definition format_02d :: "int \<Rightarrow> string" where
  "format_02d n = [digit_char (n div 10), digit_char (n mod 10)]"

definition format_schedule_time :: "int \<Rightarrow> int \<Rightarrow> string" where
  "format_schedule_time h m = format_02d h @ '':'' @ format_02d m"

subsubsection \<open>The one second timer callback\<close>

text \<open>The countdown block of \<^verbatim>\<open>scheduler_timer_callback\<close>.\<close>

definition countdown_logic :: "firmware \<Rightarrow> firmware" where
  "countdown_logic f =
     (let tc = temp_ctl f; sc = sched f
      in if s_timer_running sc \<and> temp_control_get_power tc
         then let sc1 = sc\<lparr>s_timer_seconds := s_timer_seconds sc - 1\<rparr>
              in if s_timer_seconds sc1 \<le> 0
                 then let sc2 = sc1\<lparr>s_timer_running := False, s_timer_remaining := 0,
                                     s_sched_state := SCHED_STATE_TIMEOUT\<rparr>;
                          tc2 = temp_control_set_power False tc;
                          sc3 = (if s_timeout_callback sc2
                                 then sc2\<lparr>timeout_callback_calls :=
                                            Suc (timeout_callback_calls sc2)\<rparr>
                                 else sc2)
                      in \<lparr>temp_ctl = tc2, sched = sc3\<rparr>
                 else f\<lparr>sched := sc1\<lparr>s_timer_remaining :=
                                         c_div (s_timer_seconds sc1 + 59) 60\<rparr>\<rparr>
         else f)"

definition start_minutes_of :: "int \<Rightarrow> int \<Rightarrow> int" where
  "start_minutes_of sched_hour sched_minute =
     (let sched_minutes = sched_hour * 60 + sched_minute;
          start_minutes = sched_minutes - CONFIG_PREHEAT_TIME_MINUTES
      in if start_minutes < 0 then start_minutes + 24 * 60 else start_minutes)"

text \<open>
  The appointment block. \<open>now\<close> is the content of the local \<^verbatim>\<open>now\<close> after
  \<^verbatim>\<open>soft_rtc_get_time(&now)\<close>, whose return value the source ignores.
\<close>

definition schedule_check_logic :: "rtc_time_t \<Rightarrow> firmware \<Rightarrow> firmware" where
  "schedule_check_logic now f =
     (let tc = temp_ctl f; sc = sched f
      in if s_schedule_active sc \<and> \<not> temp_control_get_power tc
         then (case parse_schedule_time (Some (s_schedule_time sc)) of
                 None \<Rightarrow> f
               | Some (sched_hour, sched_minute) \<Rightarrow>
                   let now_minutes = hour now * 60 + minute now
                   in if now_minutes = start_minutes_of sched_hour sched_minute
                      then \<lparr>temp_ctl = temp_control_set_power True tc,
                            sched = sc\<lparr>s_schedule_active := False,
                                       s_timer_running := True,
                                       s_timer_seconds := s_timer_duration sc * 60,
                                       s_timer_remaining := s_timer_duration sc,
                                       s_sched_state := SCHED_STATE_TIMER_RUNNING\<rparr>\<rparr>
                      else f)
         else f)"

text \<open>
  \<^verbatim>\<open>scheduler_timer_callback\<close>: \<open>mutex_taken\<close> says whether the non-blocking
  \<^verbatim>\<open>xSemaphoreTake(s_mutex, 0)\<close> succeeded; if not, the callback returns at once.
\<close>

definition scheduler_timer_callback :: "bool \<Rightarrow> rtc_time_t \<Rightarrow> firmware \<Rightarrow> firmware" where
  "scheduler_timer_callback mutex_taken now f =
     (if \<not> mutex_taken then f else schedule_check_logic now (countdown_logic f))"

text \<open>Consecutive scheduler ticks that all took the mutex, one clock reading each.\<close>

fun scheduler_ticks :: "rtc_time_t list \<Rightarrow> firmware \<Rightarrow> firmware" where
  "scheduler_ticks [] f = f"
| "scheduler_ticks (now # nows) f = scheduler_ticks nows (scheduler_timer_callback True now f)"

text \<open>
  The part of the trigger condition that depends on the schedule and the clock: the
  schedule is armed, the stored time parses, and the clock shows the start minute.
\<close>

definition appointment_due :: "rtc_time_t \<Rightarrow> scheduler \<Rightarrow> bool" where
  "appointment_due now sc \<longleftrightarrow>
     s_schedule_active sc
   \<and> (case parse_schedule_time (Some (s_schedule_time sc)) of
        None \<Rightarrow> False
      | Some (sched_hour, sched_minute) \<Rightarrow>
          hour now * 60 + minute now = start_minutes_of sched_hour sched_minute)"

text \<open>Whether the appointment block fires in the state it finds: due, and power off.\<close>

definition schedule_triggers :: "rtc_time_t \<Rightarrow> firmware \<Rightarrow> bool" where
  "schedule_triggers now f \<longleftrightarrow>
     \<not> temp_control_get_power (temp_ctl f) \<and> appointment_due now (sched f)"

subsubsection \<open>Public interface\<close>

definition scheduler_init :: scheduler where
  "scheduler_init =
     \<lparr> s_timer_duration = 60, s_timer_remaining = 0, s_timer_seconds = 0,
       s_timer_running = False, s_schedule_time = [], s_schedule_active = False,
       s_sched_state = SCHED_STATE_IDLE, s_timeout_callback = False,
       timeout_callback_calls = 0 \<rparr>"

definition scheduler_set_timer_duration :: "int \<Rightarrow> firmware \<Rightarrow> firmware" where
  "scheduler_set_timer_duration minutes0 f =
     (let m1 = (if minutes0 < 1 then 1 else minutes0);
          minutes = (if m1 > CONFIG_MAX_HEATING_TIME_MINUTES
                     then CONFIG_MAX_HEATING_TIME_MINUTES else m1);
          sc1 = (sched f)\<lparr>s_timer_duration := minutes\<rparr>
      in if temp_control_get_power (temp_ctl f)
         then f\<lparr>sched := sc1\<lparr>s_timer_seconds := minutes * 60,
                               s_timer_remaining := minutes,
                               s_timer_running := True,
                               s_sched_state := SCHED_STATE_TIMER_RUNNING\<rparr>\<rparr>
         else f\<lparr>sched := sc1\<rparr>)"

definition scheduler_set_schedule_time :: "string option \<Rightarrow> scheduler \<Rightarrow> scheduler" where
  "scheduler_set_schedule_time time_str sc =
     (case time_str of
        None \<Rightarrow> sc
      | Some str \<Rightarrow>
          (case parse_schedule_time (Some str) of
             None \<Rightarrow> sc
           | Some (h, m) \<Rightarrow>
               sc\<lparr>s_schedule_time := format_schedule_time h m,
                  s_schedule_active := True,
                  s_sched_state := SCHED_STATE_SCHEDULED\<rparr>))"

definition scheduler_cancel_schedule :: "scheduler \<Rightarrow> scheduler" where
  "scheduler_cancel_schedule sc =
     (let sc1 = sc\<lparr>s_schedule_active := False, s_schedule_time := []\<rparr>
      in if s_sched_state sc1 = SCHED_STATE_SCHEDULED
         then sc1\<lparr>s_sched_state := SCHED_STATE_IDLE\<rparr> else sc1)"

definition scheduler_start_timer :: "scheduler \<Rightarrow> scheduler" where
  "scheduler_start_timer sc =
     sc\<lparr>s_timer_running := True,
        s_timer_seconds := s_timer_duration sc * 60,
        s_timer_remaining := s_timer_duration sc,
        s_sched_state := SCHED_STATE_TIMER_RUNNING\<rparr>"

definition scheduler_stop_timer :: "scheduler \<Rightarrow> scheduler" where
  "scheduler_stop_timer sc =
     (let sc1 = sc\<lparr>s_timer_running := False, s_timer_seconds := 0, s_timer_remaining := 0\<rparr>
      in if s_sched_state sc1 = SCHED_STATE_TIMER_RUNNING
            \<or> s_sched_state sc1 = SCHED_STATE_TIMEOUT
         then sc1\<lparr>s_sched_state := SCHED_STATE_IDLE\<rparr> else sc1)"

definition scheduler_set_timeout_callback :: "bool \<Rightarrow> scheduler \<Rightarrow> scheduler" where
  "scheduler_set_timeout_callback callback sc = sc\<lparr>s_timeout_callback := callback\<rparr>"

subsection \<open>Derived notions and example inputs\<close>

text \<open>
  The stored temperature is at or above the hard limit in every state that a run of
  events passes through, the first and the last included.
\<close>

fun hot_throughout :: "temp_control \<Rightarrow> control_event list \<Rightarrow> bool" where
  "hot_throughout s [] = (real_of_int CONFIG_TEMP_HARD_LIMIT \<le> s_current_temp s)"
| "hot_throughout s (e # es) =
     (real_of_int CONFIG_TEMP_HARD_LIMIT \<le> s_current_temp s
      \<and> hot_throughout (control_step e s) es)"

text \<open>
  The mode that the code pairs with a sensor fault: \<^verbatim>\<open>ERROR\<close> below the hard limit,
  \<^verbatim>\<open>IDLE\<close> at or above it, where the hard limit branch of the tick runs first.
\<close>

definition sensor_fault_mode :: "temp_control \<Rightarrow> bool" where
  "sensor_fault_mode s \<longleftrightarrow>
     (\<not> s_sensor_ok s \<longrightarrow>
        s_state s = (if real_of_int CONFIG_TEMP_HARD_LIMIT \<le> s_current_temp s
                     then TEMP_STATE_IDLE else TEMP_STATE_ERROR))"

text \<open>
  Three ADC samples, for a device without calibration: a count of 125 is 100 mV, the
  lowest voltage still in the band and the hottest reading (about 130 degrees); a
  failed read; a count of 2048 is 1650 mV, where the thermistor equals the series
  resistor and the reading is 25 degrees.
\<close>

definition hot_sample :: adc_sample where
  "hot_sample = \<lparr>adc_read_ok = True, adc_raw = 125, cali_voltage_mv = 0\<rparr>"

definition fault_sample :: adc_sample where
  "fault_sample = \<lparr>adc_read_ok = False, adc_raw = 0, cali_voltage_mv = 0\<rparr>"

definition room_sample :: adc_sample where
  "room_sample = \<lparr>adc_read_ok = True, adc_raw = 2048, cali_voltage_mv = 0\<rparr>"

text \<open>
  The firmware after start with the timeout handler registered (\<open>fw_init\<close>), a clock
  reading, and the states of some short sessions:
  \<^item> \<open>fw_on\<close>: power is switched on;
  \<^item> \<open>fw_on_armed\<close>: power is switched on and an appointment for 08:30 is stored;
  \<^item> \<open>fw_timer\<close>: after that the timer duration is set to one minute, which starts
    the countdown;
  \<^item> \<open>fw_ticked\<close>: power is switched on, the duration is set to one minute, and one
    second passes;
  \<^item> \<open>fw_paused\<close>: after that power is switched off and an appointment for 08:30 is
    stored;
  \<^item> \<open>fw_armed\<close>: an appointment for 08:30 is stored while power is off.
\<close>

definition fw_init :: firmware where
  "fw_init = \<lparr>temp_ctl = temp_control_init False,
              sched = scheduler_set_timeout_callback True scheduler_init\<rparr>"

definition clock :: "int \<Rightarrow> int \<Rightarrow> rtc_time_t" where
  "clock h m = \<lparr>year = 2025, month = 1, day = 1, hour = h, minute = m, second = 0, weekday = 3\<rparr>"

definition fw_on :: firmware where
  "fw_on = fw_init\<lparr>temp_ctl := temp_control_set_power True (temp_ctl fw_init)\<rparr>"

definition fw_on_armed :: firmware where
  "fw_on_armed = fw_on\<lparr>sched := scheduler_set_schedule_time (Some ''08:30'') (sched fw_on)\<rparr>"

definition fw_timer :: firmware where
  "fw_timer = scheduler_set_timer_duration 1 fw_on_armed"

definition fw_ticked :: firmware where
  "fw_ticked = scheduler_timer_callback True (clock 8 24) (scheduler_set_timer_duration 1 fw_on)"

definition fw_paused :: firmware where
  "fw_paused =
     \<lparr>temp_ctl = temp_control_set_power False (temp_ctl fw_ticked),
      sched = scheduler_set_schedule_time (Some ''08:30'') (sched fw_ticked)\<rparr>"

definition fw_armed :: firmware where
  "fw_armed = fw_init\<lparr>sched := scheduler_set_schedule_time (Some ''08:30'') (sched fw_init)\<rparr>"

text \<open>The controller of \<^verbatim>\<open>temp_control_init\<close> with the default target as set point.\<close>

definition example_pid :: pid_controller_t where
  "example_pid = pid_set_setpoint (pid_set_output_limits (pid_init 2 0.1 0.5) 0 100) 55"

section \<open>Properties of the PID controller\<close>

lemma pid_compute_integral_max:
  "integral_max (snd (pid_compute pid c)) = integral_max pid"
  by (simp add: pid_compute_def Let_def)

lemma pid_compute_integral_bounds:
  assumes "0 \<le> integral_max pid"
  shows "- integral_max pid \<le> integral (snd (pid_compute pid c))"
    and "integral (snd (pid_compute pid c)) \<le> integral_max pid"
  using assms by (simp_all add: pid_compute_def Let_def)

lemma clamp_nearest: "lo \<le> hi \<Longrightarrow> clamp x lo hi = max lo (min hi x)"
  by (simp add: clamp_def max_def min_def)

text \<open>
  Claim C4. Whatever the controller and whatever the measured values passed to a
  non-empty sequence of \<^verbatim>\<open>pid_compute\<close> calls, the integral accumulator lies in
  \<open>[- integral_max, integral_max]\<close> after the last call, provided \<open>integral_max\<close> is not
  negative. Every call of a sequence is the last call of one of its prefixes, so the
  bound holds after every call.
\<close>

theorem pid_integral_bounded:
  assumes "0 \<le> integral_max pid" and "cs \<noteq> []"
  shows "- integral_max pid \<le> integral (pid_compute_seq pid cs)
       \<and> integral (pid_compute_seq pid cs) \<le> integral_max pid"
  using assms
proof (induction cs arbitrary: pid)
  case Nil
  then show ?case by simp
next
  case (Cons c cs)
  show ?case
  proof (cases "cs = []")
    case True
    with Cons.prems pid_compute_integral_bounds[of pid c] show ?thesis by simp
  next
    case False
    with Cons.IH[of "snd (pid_compute pid c)"] Cons.prems show ?thesis
      by (simp add: pid_compute_integral_max)
  qed
qed

theorem pid_integral_bounded_witness:
  "0 \<le> integral_max example_pid \<and> [25, 26, 90] \<noteq> ([]::real list)
   \<and> integral (pid_compute_seq example_pid [25, 26]) = 50
   \<and> integral (pid_compute_seq example_pid [25, 26, 90]) = 15"
  using pid_integral_bounded[of example_pid "[25, 26, 90]"]
  by (simp add: example_pid_def pid_init_def pid_set_output_limits_def pid_set_setpoint_def
        pid_compute_def Let_def)

text \<open>
  Claim C5. For every controller and every measured value, \<^verbatim>\<open>pid_compute\<close> returns
  the sum of the three terms clamped to \<open>[output_min, output_max]\<close>, with \<open>error\<close> the
  set point minus the measured value and the integral the old integral plus the error,
  clamped to \<open>[- integral_max, integral_max]\<close>; the controller it leaves behind holds
  that integral and has \<open>prev_error\<close> equal to the error. When
  \<open>output_min \<le> output_max\<close> the returned value lies between the two.
\<close>

theorem pid_compute_law:
  "pid_compute pid current =
     (let error = setpoint pid - current;
          integral' = clamp (integral pid + error) (- integral_max pid) (integral_max pid)
      in (clamp (kp pid * error + ki pid * integral' + kd pid * (error - prev_error pid))
                (output_min pid) (output_max pid),
          pid\<lparr>integral := integral', prev_error := error\<rparr>))
   \<and> (output_min pid \<le> output_max pid \<longrightarrow>
        output_min pid \<le> fst (pid_compute pid current)
      \<and> fst (pid_compute pid current) \<le> output_max pid)
   \<and> prev_error (snd (pid_compute pid current)) = setpoint pid - current"
  by (simp add: pid_compute_def clamp_def Let_def)

theorem pid_compute_law_witness:
  "output_min example_pid \<le> output_max example_pid
   \<and> fst (pid_compute example_pid 25) = 78
   \<and> fst (pid_compute example_pid (- 20)) = 100
   \<and> fst (pid_compute example_pid 90) = 0
   \<and> prev_error (snd (pid_compute example_pid 25)) = 30"
  using pid_compute_law[of example_pid 25] pid_compute_law[of example_pid "- 20"]
    pid_compute_law[of example_pid 90]
  by (simp add: example_pid_def pid_init_def pid_set_output_limits_def pid_set_setpoint_def
        clamp_def Let_def)

section \<open>Properties of the control loop\<close>

subsection \<open>The thermistor formula on the valid voltage band\<close>

lemma ln2_lower: "3 / 5 < ln (2::real)"
proof -
  have "exp (3 / 5 :: real) \<le> 1 + 3 / 5 + (3 / 5)\<^sup>2"
    by (rule exp_bound) simp_all
  also have "\<dots> < 2" by (simp add: power2_eq_square)
  finally have "exp (3 / 5 :: real) < exp (ln 2)" by simp
  then show ?thesis by (simp only: exp_less_cancel_iff)
qed

lemma ln_32: "ln (1 / 32 :: real) = - 5 * ln 2"
proof -
  have "ln (32::real) = ln (2 ^ 5)" by simp
  also have "\<dots> = real 5 * ln 2" by (rule ln_realpow)
  finally show ?thesis by (simp add: ln_div)
qed

lemma ntc_ratio_lower:
  assumes "100 \<le> v" "v \<le> (3200::int)"
  shows "1 / 32 \<le> NTC_SERIES_R * real_of_int v / (NTC_VREF_MV - real_of_int v) / NTC_R25"
proof -
  have a: "0 < 3300 - real_of_int v" and b: "3300 - real_of_int v \<le> 3200"
    and c: "100 \<le> real_of_int v"
    using assms by simp_all
  have "1 / 32 \<le> real_of_int v / (3300 - real_of_int v)"
    using a b c by (simp add: field_simps)
  also have "\<dots> = 10000 * real_of_int v / (3300 - real_of_int v) / 10000"
    using a by (simp add: field_simps)
  finally show ?thesis by (simp only: NTC_SERIES_R_def NTC_VREF_MV_def NTC_R25_def)
qed

text \<open>A reading in the band is a temperature above absolute zero, far from \<open>-999\<close>.\<close>

lemma ntc_celsius_above_absolute_zero:
  assumes "100 \<le> v" "v \<le> (3200::int)"
  shows "- 273.15 < ntc_celsius v"
proof -
  define x where "x = NTC_SERIES_R * real_of_int v / (NTC_VREF_MV - real_of_int v) / NTC_R25"
  have x: "1 / 32 \<le> x" unfolding x_def by (rule ntc_ratio_lower[OF assms])
  have "ln (1 / 32) \<le> ln x" by (rule ln_mono[OF x]) simp
  moreover have "ln (2::real) < 1" by (rule ln_2_less_1)
  ultimately have "- 5 < ln x" using ln_32 by linarith
  then have "0 < 1 / (25 + 273.15) + (1 / NTC_BETA) * ln x"
    by (simp add: NTC_BETA_def field_simps)
  then have "0 < 1 / (1 / (25 + 273.15) + (1 / NTC_BETA) * ln x)" by simp
  then show ?thesis by (simp add: ntc_celsius_def Let_def x_def)
qed

text \<open>At 100 mV the formula gives more than 95 degrees.\<close>

lemma ntc_celsius_100: "95 \<le> ntc_celsius 100"
proof -
  have r: "NTC_SERIES_R * real_of_int 100 / (NTC_VREF_MV - real_of_int 100) / NTC_R25 = 1 / 32"
    by (simp add: NTC_SERIES_R_def NTC_VREF_MV_def NTC_R25_def)
  define a where "a = 1 / (25 + 273.15) + (1 / NTC_BETA) * ln (1 / 32 :: real)"
  have "ln (2::real) < 1" by (rule ln_2_less_1)
  then have pos: "0 < a" unfolding a_def ln_32 by (simp add: NTC_BETA_def field_simps)
  have "a \<le> 1 / 368.15"
    using ln2_lower unfolding a_def ln_32 by (simp add: NTC_BETA_def field_simps)
  then have "368.15 \<le> 1 / a" using pos by (simp add: field_simps)
  then show ?thesis unfolding ntc_celsius_def Let_def r a_def by simp
qed

text \<open>At 1650 mV it gives exactly 25 degrees.\<close>

lemma ntc_celsius_1650: "ntc_celsius 1650 = 25"
  by (simp add: ntc_celsius_def Let_def NTC_SERIES_R_def NTC_VREF_MV_def NTC_R25_def)

subsection \<open>One control tick\<close>

lemma set_heater_duty_zero [simp]: "heater_duty (set_heater_duty 0 s) = 0"
  by (simp add: set_heater_duty_def)

lemma set_heater_duty_fields [simp]:
  "s_cali_enabled (set_heater_duty d s) = s_cali_enabled s"
  "s_pid (set_heater_duty d s) = s_pid s"
  "s_power_on (set_heater_duty d s) = s_power_on s"
  "s_target_temp (set_heater_duty d s) = s_target_temp s"
  "s_current_temp (set_heater_duty d s) = s_current_temp s"
  "s_is_heating (set_heater_duty d s) = s_is_heating s"
  "s_state (set_heater_duty d s) = s_state s"
  "s_sensor_ok (set_heater_duty d s) = s_sensor_ok s"
  by (simp_all add: set_heater_duty_def Let_def)

lemma read_ntc_valid:
  "reading_valid (s_cali_enabled s) smp \<Longrightarrow>
   read_ntc_temperature smp s =
     (ntc_celsius (ntc_voltage_mv (s_cali_enabled s) smp), s\<lparr>s_sensor_ok := True\<rparr>)"
  by (auto simp: read_ntc_temperature_def reading_valid_def Let_def)

lemma read_ntc_invalid:
  "\<not> reading_valid (s_cali_enabled s) smp \<Longrightarrow>
   read_ntc_temperature smp s = (- 999, s\<lparr>s_sensor_ok := False\<rparr>)"
  by (auto simp: read_ntc_temperature_def reading_valid_def Let_def)

text \<open>The tick on a flagged reading, and on a good one.\<close>

lemma task_invalid:
  assumes "\<not> reading_valid (s_cali_enabled s) smp"
  shows "temp_control_task smp s =
     (if real_of_int CONFIG_TEMP_HARD_LIMIT \<le> s_current_temp s
      then set_heater_duty 0 (s\<lparr>s_sensor_ok := False, s_power_on := False,
                                 s_is_heating := False, s_state := TEMP_STATE_IDLE\<rparr>)
      else set_heater_duty 0 (s\<lparr>s_sensor_ok := False, s_is_heating := False,
                                 s_state := TEMP_STATE_ERROR\<rparr>))"
  by (simp add: temp_control_task_def read_ntc_invalid[OF assms])

lemma task_valid:
  assumes "reading_valid (s_cali_enabled s) smp"
  shows "temp_control_task smp s =
     (let t = ntc_celsius (ntc_voltage_mv (s_cali_enabled s) smp);
          s' = s\<lparr>s_sensor_ok := True, s_current_temp := t\<rparr>
      in if real_of_int CONFIG_TEMP_HARD_LIMIT \<le> t
         then set_heater_duty 0 (s'\<lparr>s_power_on := False,
                                 s_is_heating := False, s_state := TEMP_STATE_IDLE\<rparr>)
         else if s_power_on s
         then let r = pid_compute (pid_set_setpoint (s_pid s) (real_of_int (s_target_temp s))) t
              in (set_heater_duty (fst r) (s'\<lparr>s_pid := snd r\<rparr>))
                   \<lparr>s_is_heating := (fst r > 5),
                    s_state := (if fst r > 5 then TEMP_STATE_HEATING else TEMP_STATE_KEEPING)\<rparr>
         else (set_heater_duty 0 s')
                \<lparr>s_is_heating := False, s_state := TEMP_STATE_IDLE,
                 s_pid := pid_reset (s_pid s)\<rparr>)"
  by (simp add: temp_control_task_def read_ntc_valid[OF assms] Let_def split_beta)

lemma task_current_temp:
  "s_current_temp (temp_control_task smp s) =
     (if reading_valid (s_cali_enabled s) smp
      then ntc_celsius (ntc_voltage_mv (s_cali_enabled s) smp) else s_current_temp s)"
  by (simp add: task_valid task_invalid Let_def)

lemma task_sensor_ok:
  "s_sensor_ok (temp_control_task smp s) = reading_valid (s_cali_enabled s) smp"
  by (cases "reading_valid (s_cali_enabled s) smp") (simp_all add: task_valid task_invalid Let_def)

lemma task_cali [simp]:
  "s_cali_enabled (temp_control_task smp s) = s_cali_enabled s"
  by (cases "reading_valid (s_cali_enabled s) smp") (simp_all add: task_valid task_invalid Let_def)

lemma task_hot:
  assumes "real_of_int CONFIG_TEMP_HARD_LIMIT \<le> s_current_temp (temp_control_task smp s)"
  shows "\<not> s_power_on (temp_control_task smp s)"
    and "s_state (temp_control_task smp s) = TEMP_STATE_IDLE"
    and "heater_duty (temp_control_task smp s) = 0"
    and "\<not> s_is_heating (temp_control_task smp s)"
proof -
  have "\<not> s_power_on (temp_control_task smp s)
      \<and> s_state (temp_control_task smp s) = TEMP_STATE_IDLE
      \<and> heater_duty (temp_control_task smp s) = 0
      \<and> \<not> s_is_heating (temp_control_task smp s)"
  proof (cases "reading_valid (s_cali_enabled s) smp")
    case True
    with assms have
      "real_of_int CONFIG_TEMP_HARD_LIMIT \<le> ntc_celsius (ntc_voltage_mv (s_cali_enabled s) smp)"
      by (simp add: task_current_temp)
    then show ?thesis by (simp add: task_valid[OF True] Let_def)
  next
    case False
    with assms have "real_of_int CONFIG_TEMP_HARD_LIMIT \<le> s_current_temp s"
      by (simp add: task_current_temp)
    then show ?thesis by (simp add: task_invalid[OF False])
  qed
  then show "\<not> s_power_on (temp_control_task smp s)"
    and "s_state (temp_control_task smp s) = TEMP_STATE_IDLE"
    and "heater_duty (temp_control_task smp s) = 0"
    and "\<not> s_is_heating (temp_control_task smp s)" by simp_all
qed

lemma step_cali [simp]: "s_cali_enabled (control_step e s) = s_cali_enabled s"
  by (cases e) (simp_all add: temp_control_set_power_def temp_control_set_target_temp_def Let_def)

lemma run_cali [simp]: "s_cali_enabled (control_run s es) = s_cali_enabled s"
  by (induction es arbitrary: s) simp_all

lemma init_cali [simp]: "s_cali_enabled (temp_control_init cali) = cali"
  by (simp add: temp_control_init_def)

lemma fault_sample_invalid [simp]: "\<not> reading_valid cali fault_sample"
  by (simp add: reading_valid_def fault_sample_def)

lemma hot_sample_voltage: "ntc_voltage_mv False hot_sample = 100"
  by (simp add: ntc_voltage_mv_def hot_sample_def c_div_def)

lemma hot_sample_valid [simp]: "reading_valid False hot_sample"
  by (simp add: reading_valid_def hot_sample_voltage) (simp add: hot_sample_def)

lemma room_sample_voltage: "ntc_voltage_mv False room_sample = 1650"
  by (simp add: ntc_voltage_mv_def room_sample_def c_div_def)

lemma room_sample_valid [simp]: "reading_valid False room_sample"
  by (simp add: reading_valid_def room_sample_voltage) (simp add: room_sample_def)

subsection \<open>The hard limit\<close>

lemma heater_stays_off:
  "heater_duty s = 0 \<Longrightarrow> \<not> s_is_heating s \<Longrightarrow> hot_throughout s es \<Longrightarrow>
   heater_duty (control_run s es) = 0 \<and> \<not> s_is_heating (control_run s es)"
proof (induction es arbitrary: s)
  case Nil
  then show ?case by simp
next
  case (Cons e es)
  from Cons.prems have hot': "hot_throughout (control_step e s) es" by simp
  then have hot: "real_of_int CONFIG_TEMP_HARD_LIMIT \<le> s_current_temp (control_step e s)"
    by (cases es) simp_all
  have "heater_duty (control_step e s) = 0 \<and> \<not> s_is_heating (control_step e s)"
  proof (cases e)
    case (Tick smp)
    with hot task_hot[of smp s] show ?thesis by simp
  next
    case (SetPower on)
    with Cons.prems show ?thesis by (simp add: temp_control_set_power_def Let_def)
  next
    case (SetTargetTemp t)
    with Cons.prems show ?thesis by (simp add: temp_control_set_target_temp_def Let_def)
  qed
  with Cons.IH[OF _ _ hot'] show ?case by simp
qed

text \<open>
  Claim C1. The temperature that a tick compares with the hard limit is the one it
  leaves in \<^verbatim>\<open>s_current_temp\<close> (the fresh reading if valid, the retained one if not; no
  later statement of the tick changes it). For every prior state and every sample: if
  that temperature is at or above \<^verbatim>\<open>CONFIG_TEMP_HARD_LIMIT\<close>, the tick ends with power
  off, mode \<^verbatim>\<open>IDLE\<close> and heater duty 0. The check belongs to every tick: through any
  later ticks and setter calls, power-on requests included, during which the stored
  temperature stays at or above the limit, the heater duty stays 0 and the heating
  flag stays false.
\<close>

theorem hard_limit_interlock:
  assumes "real_of_int CONFIG_TEMP_HARD_LIMIT \<le> s_current_temp (temp_control_task smp s)"
  shows "s_current_temp (temp_control_task smp s) =
           (if reading_valid (s_cali_enabled s) smp
            then ntc_celsius (ntc_voltage_mv (s_cali_enabled s) smp) else s_current_temp s)
       \<and> \<not> s_power_on (temp_control_task smp s)
       \<and> s_state (temp_control_task smp s) = TEMP_STATE_IDLE
       \<and> heater_duty (temp_control_task smp s) = 0
       \<and> (hot_throughout (temp_control_task smp s) es \<longrightarrow>
            heater_duty (control_run (temp_control_task smp s) es) = 0
          \<and> \<not> s_is_heating (control_run (temp_control_task smp s) es))"
  using task_hot[OF assms] heater_stays_off[of "temp_control_task smp s" es]
    task_current_temp[of smp s]
  by simp

theorem hard_limit_interlock_witness:
  "real_of_int CONFIG_TEMP_HARD_LIMIT
     \<le> s_current_temp (temp_control_task hot_sample
          (temp_control_set_power True (temp_control_init False)))
 \<and> s_power_on (temp_control_set_power True (temp_control_init False))
 \<and> hot_throughout
      (temp_control_task hot_sample (temp_control_set_power True (temp_control_init False)))
      [SetPower True, Tick hot_sample]
 \<and> \<not> s_power_on (temp_control_task hot_sample
          (temp_control_set_power True (temp_control_init False)))
 \<and> heater_duty (control_run
      (temp_control_task hot_sample (temp_control_set_power True (temp_control_init False)))
      [SetPower True, Tick hot_sample]) = 0"
proof -
  let ?s = "temp_control_set_power True (temp_control_init False)"
  have c: "s_cali_enabled ?s = False" by (simp add: temp_control_set_power_def)
  have hot: "real_of_int CONFIG_TEMP_HARD_LIMIT \<le> s_current_temp (temp_control_task hot_sample ?s)"
    using ntc_celsius_100
    by (simp add: task_current_temp c hot_sample_voltage CONFIG_TEMP_HARD_LIMIT_def)
  have on: "s_power_on ?s" by (simp add: temp_control_set_power_def)
  have run: "hot_throughout (temp_control_task hot_sample ?s) [SetPower True, Tick hot_sample]"
    using ntc_celsius_100
    by (simp add: task_current_temp c hot_sample_voltage CONFIG_TEMP_HARD_LIMIT_def
          temp_control_set_power_def)
  show ?thesis
    using hard_limit_interlock[OF hot, of "[SetPower True, Tick hot_sample]"] hot on run
    by simp
qed

subsection \<open>Sensor faults\<close>

text \<open>
  Claim C2, as the code has it. On every tick whose reading is flagged invalid the
  tick sets \<^verbatim>\<open>s_sensor_ok\<close> to false and the heater duty to 0 and does not run the PID
  (the controller is untouched). When the retained temperature is below the hard
  limit, the mode becomes \<^verbatim>\<open>ERROR\<close> and \<^verbatim>\<open>s_power_on\<close> keeps its value. When the
  retained temperature is at or above the hard limit, the hard limit branch runs
  first: the mode becomes \<^verbatim>\<open>IDLE\<close> and power is switched off. A following tick with
  a valid reading sets \<^verbatim>\<open>s_sensor_ok\<close> back to true.
\<close>

theorem sensor_fault_tick:
  assumes "\<not> reading_valid (s_cali_enabled s) smp"
  shows "\<not> s_sensor_ok (temp_control_task smp s)
       \<and> heater_duty (temp_control_task smp s) = 0
       \<and> s_pid (temp_control_task smp s) = s_pid s
       \<and> (s_current_temp s < real_of_int CONFIG_TEMP_HARD_LIMIT \<longrightarrow>
            s_state (temp_control_task smp s) = TEMP_STATE_ERROR
          \<and> s_power_on (temp_control_task smp s) = s_power_on s)
       \<and> (real_of_int CONFIG_TEMP_HARD_LIMIT \<le> s_current_temp s \<longrightarrow>
            s_state (temp_control_task smp s) = TEMP_STATE_IDLE
          \<and> \<not> s_power_on (temp_control_task smp s))
       \<and> (reading_valid (s_cali_enabled s) smp' \<longrightarrow>
            s_sensor_ok (temp_control_task smp' (temp_control_task smp s)))"
  by (simp add: task_invalid[OF assms] task_sensor_ok)

theorem sensor_fault_tick_witness:
  "\<not> reading_valid (s_cali_enabled (temp_control_init False)) fault_sample
 \<and> s_current_temp (temp_control_init False) < real_of_int CONFIG_TEMP_HARD_LIMIT
 \<and> reading_valid (s_cali_enabled (temp_control_init False)) room_sample
 \<and> s_state (temp_control_task fault_sample (temp_control_init False)) = TEMP_STATE_ERROR
 \<and> s_sensor_ok (temp_control_task room_sample
      (temp_control_task fault_sample (temp_control_init False)))
 \<and> real_of_int CONFIG_TEMP_HARD_LIMIT
      \<le> s_current_temp (temp_control_task hot_sample (temp_control_init False))
 \<and> s_state (temp_control_task fault_sample
      (temp_control_task hot_sample (temp_control_init False))) = TEMP_STATE_IDLE"
proof -
  have cold: "s_current_temp (temp_control_init False) < real_of_int CONFIG_TEMP_HARD_LIMIT"
    by (simp add: temp_control_init_def CONFIG_TEMP_HARD_LIMIT_def)
  have hot: "real_of_int CONFIG_TEMP_HARD_LIMIT
      \<le> s_current_temp (temp_control_task hot_sample (temp_control_init False))"
    using ntc_celsius_100
    by (simp add: task_current_temp hot_sample_voltage CONFIG_TEMP_HARD_LIMIT_def)
  have a: "\<not> reading_valid (s_cali_enabled (temp_control_init False)) fault_sample"
    and b: "\<not> reading_valid
          (s_cali_enabled (temp_control_task hot_sample (temp_control_init False))) fault_sample"
    by simp_all
  show ?thesis
    using sensor_fault_tick[OF a, of room_sample] sensor_fault_tick[OF b, of room_sample]
      cold hot
    by simp
qed

text \<open>
  The claim as worded fails after a hot reading. From the initial state: a tick reads
  100 mV (about 130 degrees) and the hard limit switches power off; a caller asks for
  power again; the next ADC read fails. The reading of that tick is flagged invalid
  and power was on, yet the tick ends with power off and mode \<^verbatim>\<open>IDLE\<close>, not
  \<^verbatim>\<open>ERROR\<close>.
\<close>

theorem sensor_fault_tick_counterexample:
  "\<not> reading_valid False fault_sample
 \<and> s_power_on (control_run (temp_control_init False) [Tick hot_sample, SetPower True])
 \<and> \<not> s_power_on (control_run (temp_control_init False)
                     [Tick hot_sample, SetPower True, Tick fault_sample])
 \<and> s_state (control_run (temp_control_init False)
                     [Tick hot_sample, SetPower True, Tick fault_sample]) = TEMP_STATE_IDLE"
proof -
  let ?s = "temp_control_set_power True (temp_control_task hot_sample (temp_control_init False))"
  have hot: "real_of_int CONFIG_TEMP_HARD_LIMIT \<le> s_current_temp ?s"
    using ntc_celsius_100
    by (simp add: temp_control_set_power_def task_current_temp hot_sample_voltage
          CONFIG_TEMP_HARD_LIMIT_def)
  have nv: "\<not> reading_valid (s_cali_enabled ?s) fault_sample"
    by simp
  show ?thesis
    using hot by (simp add: task_invalid[OF nv]) (simp add: temp_control_set_power_def)
qed

subsection \<open>The invariant of the control state\<close>

lemma step_sensor_fault_mode:
  assumes "sensor_fault_mode s"
  shows "sensor_fault_mode (control_step e s)"
proof (cases e)
  case (Tick smp)
  then show ?thesis
    by (cases "reading_valid (s_cali_enabled s) smp")
       (simp_all add: sensor_fault_mode_def task_sensor_ok task_invalid)
next
  case (SetPower on)
  with assms show ?thesis
    by (simp add: sensor_fault_mode_def temp_control_set_power_def Let_def)
next
  case (SetTargetTemp t)
  with assms show ?thesis
    by (simp add: sensor_fault_mode_def temp_control_set_target_temp_def Let_def)
qed

lemma tick_sensor_fault_mode: "sensor_fault_mode (temp_control_task smp s)"
  by (cases "reading_valid (s_cali_enabled s) smp")
     (simp_all add: sensor_fault_mode_def task_sensor_ok task_invalid)

lemma run_sensor_fault_mode:
  "sensor_fault_mode s \<Longrightarrow> sensor_fault_mode (control_run s es)"
  by (induction es arbitrary: s) (simp_all add: step_sensor_fault_mode)

lemma tick_power_off_idle:
  assumes "\<not> s_power_on (temp_control_task smp s)" "s_sensor_ok (temp_control_task smp s)"
  shows "s_state (temp_control_task smp s) = TEMP_STATE_IDLE"
proof -
  from assms(2) have v: "reading_valid (s_cali_enabled s) smp" by (simp add: task_sensor_ok)
  show ?thesis
  proof (cases "real_of_int CONFIG_TEMP_HARD_LIMIT
                  \<le> ntc_celsius (ntc_voltage_mv (s_cali_enabled s) smp)")
    case True
    then show ?thesis by (simp add: task_valid[OF v] Let_def)
  next
    case False
    with assms(1) have "\<not> s_power_on s"
      by (cases "s_power_on s") (simp_all add: task_valid[OF v] Let_def)
    with False show ?thesis by (simp add: task_valid[OF v] Let_def)
  qed
qed

text \<open>
  Claim C3, as the code has it. In every state reached from the initial state by
  control ticks and setter calls, and more generally in every state reached from a
  state that satisfies it, a false \<^verbatim>\<open>s_sensor_ok\<close> comes with mode \<^verbatim>\<open>ERROR\<close> when the
  stored temperature is below the hard limit and with mode \<^verbatim>\<open>IDLE\<close> when it is at or
  above. Every tick establishes this from any state. In the state a tick leaves, power
  off together with a good sensor means mode \<^verbatim>\<open>IDLE\<close>.
\<close>

theorem control_invariant_of_code:
  "sensor_fault_mode (control_run (temp_control_init cali) es)
 \<and> (sensor_fault_mode s \<longrightarrow> sensor_fault_mode (control_run s es))
 \<and> sensor_fault_mode (temp_control_task smp s)
 \<and> (\<not> s_power_on (temp_control_task smp s) \<and> s_sensor_ok (temp_control_task smp s) \<longrightarrow>
      s_state (temp_control_task smp s) = TEMP_STATE_IDLE)"
proof -
  have "sensor_fault_mode (temp_control_init cali)"
    by (simp add: sensor_fault_mode_def temp_control_init_def)
  then show ?thesis
    using tick_power_off_idle[of smp s]
    by (simp add: run_sensor_fault_mode tick_sensor_fault_mode)
qed

theorem control_invariant_of_code_witness:
  "sensor_fault_mode (temp_control_init False)
 \<and> \<not> s_sensor_ok (control_run (temp_control_init False) [Tick fault_sample, SetPower True])
 \<and> s_state (control_run (temp_control_init False) [Tick fault_sample, SetPower True])
      = TEMP_STATE_ERROR
 \<and> \<not> s_power_on (temp_control_task room_sample (temp_control_init False))
 \<and> s_sensor_ok (temp_control_task room_sample (temp_control_init False))
 \<and> s_state (temp_control_task room_sample (temp_control_init False)) = TEMP_STATE_IDLE"
proof -
  have i: "sensor_fault_mode (temp_control_init False)"
    by (simp add: sensor_fault_mode_def temp_control_init_def)
  have cold: "\<not> real_of_int CONFIG_TEMP_HARD_LIMIT \<le> s_current_temp (temp_control_init False)"
    by (simp add: temp_control_init_def CONFIG_TEMP_HARD_LIMIT_def)
  have f: "\<not> s_sensor_ok (control_run (temp_control_init False) [Tick fault_sample, SetPower True])"
    by (simp add: temp_control_set_power_def task_sensor_ok)
  have t: "s_current_temp (control_run (temp_control_init False) [Tick fault_sample, SetPower True])
      = s_current_temp (temp_control_init False)"
    by (simp add: temp_control_set_power_def task_current_temp)
  have off: "\<not> s_power_on (temp_control_task room_sample (temp_control_init False))"
    using ntc_celsius_1650
    by (simp add: task_valid Let_def room_sample_voltage CONFIG_TEMP_HARD_LIMIT_def)
       (simp add: temp_control_init_def)
  have ok: "s_sensor_ok (temp_control_task room_sample (temp_control_init False))"
    by (simp add: task_sensor_ok)
  show ?thesis
    using control_invariant_of_code[of False "[Tick fault_sample, SetPower True]"
        "temp_control_init False" room_sample] i cold f t off ok
    by (simp add: sensor_fault_mode_def)
qed

text \<open>
  The invariant as the specification words it fails in a reachable state: the first
  tick after start finds a failed ADC read; power is off, and the mode is \<^verbatim>\<open>ERROR\<close>,
  not \<^verbatim>\<open>IDLE\<close>.
\<close>

theorem control_invariant_counterexample:
  "\<not> control_invariant (control_run (temp_control_init False) [Tick fault_sample])"
  by (simp add: control_invariant_def task_invalid)
     (simp add: temp_control_init_def CONFIG_TEMP_HARD_LIMIT_def)

subsection \<open>The fault sentinel never reaches the stored temperature\<close>

lemma valid_not_sentinel:
  assumes "reading_valid cali smp"
  shows "ntc_celsius (ntc_voltage_mv cali smp) \<noteq> - 999"
proof -
  from assms have "100 \<le> ntc_voltage_mv cali smp" "ntc_voltage_mv cali smp \<le> 3200"
    by (simp_all add: reading_valid_def)
  from ntc_celsius_above_absolute_zero[OF this] show ?thesis by simp
qed

lemma step_not_sentinel:
  assumes "s_current_temp s \<noteq> - 999"
  shows "s_current_temp (control_step e s) \<noteq> - 999"
proof (cases e)
  case (Tick smp)
  with assms valid_not_sentinel[of "s_cali_enabled s" smp] show ?thesis
    by (simp add: task_current_temp)
next
  case (SetPower on)
  with assms show ?thesis by (simp add: temp_control_set_power_def Let_def)
next
  case (SetTargetTemp t)
  with assms show ?thesis by (simp add: temp_control_set_target_temp_def Let_def)
qed

lemma run_not_sentinel:
  "s_current_temp s \<noteq> - 999 \<Longrightarrow> s_current_temp (control_run s es) \<noteq> - 999"
  by (induction es arbitrary: s) (simp_all add: step_not_sentinel)

text \<open>
  Claim C10. After a tick with a valid reading, from whatever state, the stored
  temperature is not \<open>-999\<close>, and it stays different from \<open>-999\<close> through every later
  run of ticks and setter calls. A tick whose reading is flagged invalid leaves
  \<^verbatim>\<open>s_current_temp\<close> as it was, which is what \<^verbatim>\<open>temp_control_get_current_temp\<close>
  returns afterwards; and the hard limit test of that tick is decided by this
  retained value: at or above the limit the tick switches power off with mode
  \<^verbatim>\<open>IDLE\<close>, below it the tick reports mode \<^verbatim>\<open>ERROR\<close> and keeps the power flag.
\<close>

theorem current_temp_never_sentinel:
  assumes "reading_valid (s_cali_enabled s) smp"
  shows "s_current_temp (control_run (temp_control_task smp s) es) \<noteq> - 999
     \<and> (\<not> reading_valid (s_cali_enabled s') smp' \<longrightarrow>
          s_current_temp (temp_control_task smp' s') = s_current_temp s'
        \<and> temp_control_get_current_temp (temp_control_task smp' s') = s_current_temp s'
        \<and> (real_of_int CONFIG_TEMP_HARD_LIMIT \<le> s_current_temp s' \<longrightarrow>
              s_state (temp_control_task smp' s') = TEMP_STATE_IDLE
            \<and> \<not> s_power_on (temp_control_task smp' s'))
        \<and> (s_current_temp s' < real_of_int CONFIG_TEMP_HARD_LIMIT \<longrightarrow>
              s_state (temp_control_task smp' s') = TEMP_STATE_ERROR
            \<and> s_power_on (temp_control_task smp' s') = s_power_on s'))"
proof -
  from assms have "s_current_temp (temp_control_task smp s) \<noteq> - 999"
    by (simp add: task_current_temp valid_not_sentinel)
  then have "s_current_temp (control_run (temp_control_task smp s) es) \<noteq> - 999"
    by (rule run_not_sentinel)
  then show ?thesis
    by (simp add: task_invalid temp_control_get_current_temp_def)
qed

theorem current_temp_never_sentinel_witness:
  "reading_valid (s_cali_enabled (temp_control_init False)) room_sample
 \<and> \<not> reading_valid (s_cali_enabled (temp_control_task room_sample (temp_control_init False)))
        fault_sample
 \<and> s_current_temp (temp_control_task room_sample (temp_control_init False)) = 25
 \<and> s_current_temp (temp_control_task room_sample (temp_control_init False))
      < real_of_int CONFIG_TEMP_HARD_LIMIT
 \<and> temp_control_get_current_temp
      (control_run (temp_control_init False) [Tick room_sample, Tick fault_sample]) = 25
 \<and> s_state (control_run (temp_control_init False) [Tick room_sample, Tick fault_sample])
      = TEMP_STATE_ERROR
 \<and> real_of_int CONFIG_TEMP_HARD_LIMIT
      \<le> s_current_temp (temp_control_task hot_sample (temp_control_init False))
 \<and> s_state (control_run (temp_control_init False) [Tick hot_sample, Tick fault_sample])
      = TEMP_STATE_IDLE"
proof -
  let ?s = "temp_control_task room_sample (temp_control_init False)"
  let ?h = "temp_control_task hot_sample (temp_control_init False)"
  have v: "reading_valid (s_cali_enabled (temp_control_init False)) room_sample" by simp
  have nv: "\<not> reading_valid (s_cali_enabled ?s) fault_sample" by simp
  have nh: "\<not> reading_valid (s_cali_enabled ?h) fault_sample" by simp
  have t: "s_current_temp ?s = 25"
    by (simp add: task_current_temp room_sample_voltage ntc_celsius_1650)
  have cold: "s_current_temp ?s < real_of_int CONFIG_TEMP_HARD_LIMIT"
    by (simp add: t CONFIG_TEMP_HARD_LIMIT_def)
  have hot: "real_of_int CONFIG_TEMP_HARD_LIMIT \<le> s_current_temp ?h"
    using ntc_celsius_100
    by (simp add: task_current_temp hot_sample_voltage CONFIG_TEMP_HARD_LIMIT_def)
  show ?thesis
    using current_temp_never_sentinel[OF v, of "[Tick fault_sample]" ?s fault_sample]
      current_temp_never_sentinel[OF v, of "[]" ?h fault_sample]
      v nv nh t cold hot
    by simp
qed

section \<open>Properties of the scheduler\<close>

subsection \<open>Parsing the schedule time\<close>

lemmas scan_defs =
  parse_schedule_time_def sscanf_d_colon_d_def scan_d_def isspace_def isdigit_def
  digit_value_def

lemma parse_schedule_time_range:
  assumes "parse_schedule_time time_str = Some (h, mi)"
  shows "0 \<le> h \<and> h \<le> 23 \<and> 0 \<le> mi \<and> mi \<le> 59"
  using assms
  by (auto simp: parse_schedule_time_def split: option.splits if_splits list.splits)

lemma start_minutes_of_range:
  assumes "0 \<le> h" "h \<le> 23" "0 \<le> mi" "mi \<le> 59"
  shows "0 \<le> start_minutes_of h mi \<and> start_minutes_of h mi < 1440"
  using assms by (simp add: start_minutes_of_def CONFIG_PREHEAT_TIME_MINUTES_def Let_def)

lemma parse_0830: "parse_schedule_time (Some ''08:30'') = Some (8, 30)"
  by (simp add: scan_defs)

lemma parse_0002: "parse_schedule_time (Some ''00:02'') = Some (0, 2)"
  by (simp add: scan_defs)

lemma format_0830: "format_schedule_time 8 30 = ''08:30''"
  by code_simp

subsection \<open>The two blocks of the timer callback\<close>

lemma c_div_nonneg: "0 \<le> a \<Longrightarrow> 0 < b \<Longrightarrow> c_div a b = a div b"
  by (cases "a = 0") (simp_all add: c_div_def)

lemma countdown_paused:
  "\<not> (s_timer_running (sched f) \<and> s_power_on (temp_ctl f)) \<Longrightarrow> countdown_logic f = f"
  by (auto simp: countdown_logic_def temp_control_get_power_def)

lemma countdown_decrement:
  assumes "s_timer_running (sched f)" "s_power_on (temp_ctl f)" "1 < s_timer_seconds (sched f)"
  shows "countdown_logic f =
     f\<lparr>sched := (sched f)\<lparr>s_timer_seconds := s_timer_seconds (sched f) - 1,
                           s_timer_remaining := (s_timer_seconds (sched f) + 58) div 60\<rparr>\<rparr>"
  using assms
  by (simp add: countdown_logic_def temp_control_get_power_def Let_def c_div_nonneg)

lemma countdown_expire:
  assumes "s_timer_running (sched f)" "s_power_on (temp_ctl f)" "s_timer_seconds (sched f) \<le> 1"
  shows "countdown_logic f =
     \<lparr>temp_ctl = temp_control_set_power False (temp_ctl f),
      sched = (sched f)\<lparr>s_timer_seconds := s_timer_seconds (sched f) - 1,
                        s_timer_running := False, s_timer_remaining := 0,
                        s_sched_state := SCHED_STATE_TIMEOUT,
                        timeout_callback_calls :=
                          (if s_timeout_callback (sched f)
                           then Suc (timeout_callback_calls (sched f))
                           else timeout_callback_calls (sched f))\<rparr>\<rparr>"
  using assms
  by (simp add: countdown_logic_def temp_control_get_power_def Let_def)

lemma schedule_check_idle:
  "\<not> schedule_triggers now f \<Longrightarrow> schedule_check_logic now f = f"
  by (auto simp: schedule_check_logic_def schedule_triggers_def appointment_due_def Let_def
           split: option.splits)

lemma schedule_check_fires:
  "schedule_triggers now f \<Longrightarrow>
   schedule_check_logic now f =
     \<lparr>temp_ctl = temp_control_set_power True (temp_ctl f),
      sched = (sched f)\<lparr>s_schedule_active := False,
                        s_timer_running := True,
                        s_timer_seconds := s_timer_duration (sched f) * 60,
                        s_timer_remaining := s_timer_duration (sched f),
                        s_sched_state := SCHED_STATE_TIMER_RUNNING\<rparr>\<rparr>"
  by (auto simp: schedule_check_logic_def schedule_triggers_def appointment_due_def Let_def
           split: option.splits)

lemma set_power_on [simp]:
  "s_power_on (temp_control_set_power on s) = on"
  by (simp add: temp_control_set_power_def Let_def)

lemma set_power_off_duty [simp]:
  "heater_duty (temp_control_set_power False s) = 0"
  by (simp add: temp_control_set_power_def Let_def)

lemma scheduler_ticks_append:
  "scheduler_ticks (xs @ ys) f = scheduler_ticks ys (scheduler_ticks xs f)"
  by (induction xs arbitrary: f) simp_all

subsection \<open>Counting down\<close>

text \<open>
  Ticks that take the mutex while the countdown runs with power on and more seconds
  left than there are ticks: each takes one second off and does nothing else.
\<close>

lemma ticks_countdown:
  assumes "s_timer_running (sched f)" "s_power_on (temp_ctl f)"
    and "int (length nows) < s_timer_seconds (sched f)"
  shows "scheduler_ticks nows f =
     f\<lparr>sched := (sched f)\<lparr>
          s_timer_seconds := s_timer_seconds (sched f) - int (length nows),
          s_timer_remaining :=
            (if nows = [] then s_timer_remaining (sched f)
             else (s_timer_seconds (sched f) - int (length nows) + 59) div 60)\<rparr>\<rparr>"
  using assms
proof (induction nows arbitrary: f)
  case Nil
  then show ?case by simp
next
  case (Cons now nows)
  let ?g = "f\<lparr>sched := (sched f)\<lparr>s_timer_seconds := s_timer_seconds (sched f) - 1,
                           s_timer_remaining := (s_timer_seconds (sched f) + 58) div 60\<rparr>\<rparr>"
  from Cons.prems have big: "1 < s_timer_seconds (sched f)" by simp
  have cd: "countdown_logic f = ?g"
    by (rule countdown_decrement[OF Cons.prems(1,2) big])
  have "\<not> schedule_triggers now ?g"
    using Cons.prems(2) by (simp add: schedule_triggers_def temp_control_get_power_def)
  then have tick: "scheduler_timer_callback True now f = ?g"
    by (simp add: scheduler_timer_callback_def cd schedule_check_idle)
  have "scheduler_ticks nows ?g =
     ?g\<lparr>sched := (sched ?g)\<lparr>
          s_timer_seconds := s_timer_seconds (sched ?g) - int (length nows),
          s_timer_remaining :=
            (if nows = [] then s_timer_remaining (sched ?g)
             else (s_timer_seconds (sched ?g) - int (length nows) + 59) div 60)\<rparr>\<rparr>"
    using Cons.prems by (intro Cons.IH) simp_all
  then show ?case
    by (simp add: tick)
qed

lemma duration_one_started:
  assumes "s_power_on (temp_ctl f)"
  shows "scheduler_set_timer_duration 1 f =
     f\<lparr>sched := (sched f)\<lparr>s_timer_duration := 1, s_timer_seconds := 60,
                           s_timer_remaining := 1, s_timer_running := True,
                           s_sched_state := SCHED_STATE_TIMER_RUNNING\<rparr>\<rparr>"
  using assms
  by (simp add: scheduler_set_timer_duration_def temp_control_get_power_def Let_def
        CONFIG_MAX_HEATING_TIME_MINUTES_def)

text \<open>The first \<open>k < 60\<close> seconds of a one minute countdown.\<close>

lemma one_minute_running:
  assumes "s_power_on (temp_ctl f)" "length nows = k" "k < 60"
  shows "scheduler_ticks nows (scheduler_set_timer_duration 1 f) =
     f\<lparr>sched := (sched f)\<lparr>s_timer_duration := 1, s_timer_seconds := 60 - int k,
                           s_timer_remaining := 1, s_timer_running := True,
                           s_sched_state := SCHED_STATE_TIMER_RUNNING\<rparr>\<rparr>"
proof -
  let ?f0 = "scheduler_set_timer_duration 1 f"
  have f0: "?f0 = f\<lparr>sched := (sched f)\<lparr>s_timer_duration := 1, s_timer_seconds := 60,
                           s_timer_remaining := 1, s_timer_running := True,
                           s_sched_state := SCHED_STATE_TIMER_RUNNING\<rparr>\<rparr>"
    by (rule duration_one_started[OF assms(1)])
  have r: "s_timer_running (sched ?f0)" and p: "s_power_on (temp_ctl ?f0)"
    and s: "int (length nows) < s_timer_seconds (sched ?f0)"
    using assms by (simp_all add: f0)
  have d: "(60 - int k + 59) div 60 = 1" using assms(3) by simp
  show ?thesis
    using assms(2) d by (simp add: ticks_countdown[OF r p s]) (simp add: f0)
qed

lemma appointment_due_cong:
  "s_schedule_active sc' = s_schedule_active sc \<Longrightarrow> s_schedule_time sc' = s_schedule_time sc
   \<Longrightarrow> appointment_due now sc' = appointment_due now sc"
  by (simp add: appointment_due_def)


text \<open>The state after the 60 ticks of a one minute countdown.\<close>

lemma one_minute_last_tick:
  assumes "s_power_on (temp_ctl f)" and "length nows = 59"
  shows "scheduler_ticks (nows @ [now]) (scheduler_set_timer_duration 1 f) =
     (let m = \<lparr>temp_ctl = temp_control_set_power False (temp_ctl f),
               sched = (sched f)\<lparr>s_timer_duration := 1, s_timer_seconds := 0,
                        s_timer_remaining := 0, s_timer_running := False,
                        s_sched_state := SCHED_STATE_TIMEOUT,
                        timeout_callback_calls :=
                          (if s_timeout_callback (sched f)
                           then Suc (timeout_callback_calls (sched f))
                           else timeout_callback_calls (sched f))\<rparr>\<rparr>
      in if appointment_due now (sched f)
         then \<lparr>temp_ctl = temp_control_set_power True (temp_ctl m),
               sched = (sched m)\<lparr>s_schedule_active := False,
                        s_timer_running := True,
                        s_timer_seconds := 60,
                        s_timer_remaining := 1,
                        s_sched_state := SCHED_STATE_TIMER_RUNNING\<rparr>\<rparr>
         else m)"
proof -
  let ?f0 = "scheduler_set_timer_duration 1 f"
  define g where "g = scheduler_ticks nows ?f0"
  have g: "g = f\<lparr>sched := (sched f)\<lparr>s_timer_duration := 1, s_timer_seconds := 60 - int 59,
                           s_timer_remaining := 1, s_timer_running := True,
                           s_sched_state := SCHED_STATE_TIMER_RUNNING\<rparr>\<rparr>"
    unfolding g_def by (rule one_minute_running[OF assms(1) assms(2)]) simp
  have gr: "s_timer_running (sched g)" and gp: "s_power_on (temp_ctl g)"
    and gs: "s_timer_seconds (sched g) \<le> 1"
    using assms(1) by (simp_all add: g)
  define m where "m = countdown_logic g"
  have m: "m = \<lparr>temp_ctl = temp_control_set_power False (temp_ctl f),
               sched = (sched f)\<lparr>s_timer_duration := 1, s_timer_seconds := 0,
                        s_timer_remaining := 0, s_timer_running := False,
                        s_sched_state := SCHED_STATE_TIMEOUT,
                        timeout_callback_calls :=
                          (if s_timeout_callback (sched f)
                           then Suc (timeout_callback_calls (sched f))
                           else timeout_callback_calls (sched f))\<rparr>\<rparr>"
    unfolding m_def by (simp add: countdown_expire[OF gr gp gs]) (simp add: g)
  have due: "appointment_due now (sched m) = appointment_due now (sched f)"
    by (rule appointment_due_cong) (simp_all add: m)
  have trig: "schedule_triggers now m = appointment_due now (sched f)"
    by (simp add: schedule_triggers_def due temp_control_get_power_def) (simp add: m)
  have last: "scheduler_ticks (nows @ [now]) ?f0 = schedule_check_logic now m"
    by (simp add: scheduler_ticks_append scheduler_timer_callback_def m_def g_def)
  show ?thesis
  proof (cases "appointment_due now (sched f)")
    case True
    with trig have "schedule_triggers now m" by simp
    from schedule_check_fires[OF this] True show ?thesis
      unfolding last by (simp add: Let_def) (simp add: m)
  next
    case False
    with trig have "\<not> schedule_triggers now m" by simp
    from schedule_check_idle[OF this] False show ?thesis
      unfolding last by (simp add: Let_def m)
  qed
qed

text \<open>
  Claim C6, as the code has it. Power is on and the timer duration is set to one
  minute, which starts the countdown at 60 seconds. After \<open>k \<le> 59\<close> further ticks,
  whatever the clock shows, the countdown is still running with \<open>60 - k\<close> seconds and
  one minute remaining, power is on and the timeout handler has not been called. The
  60th tick lets the countdown expire and calls the registered handler once. If no
  appointment is due at that tick, the tick ends with the timer stopped, zero
  remaining, state \<^verbatim>\<open>TIMEOUT\<close>, power off and heater duty 0. If an armed appointment
  is due at that very tick, its appointment block runs after the expiry and the tick
  ends with power on again and a fresh countdown in state \<^verbatim>\<open>TIMER_RUNNING\<close>.
\<close>

theorem one_minute_timer_expires:
  assumes "s_power_on (temp_ctl f)" and "length nows = 59"
  shows "(\<forall>k\<le>59.
            s_timer_running (sched (scheduler_ticks (take k nows) (scheduler_set_timer_duration 1 f)))
          \<and> s_sched_state (sched (scheduler_ticks (take k nows) (scheduler_set_timer_duration 1 f)))
              = SCHED_STATE_TIMER_RUNNING
          \<and> s_power_on (temp_ctl (scheduler_ticks (take k nows) (scheduler_set_timer_duration 1 f)))
          \<and> s_timer_seconds (sched (scheduler_ticks (take k nows) (scheduler_set_timer_duration 1 f)))
              = 60 - int k
          \<and> s_timer_remaining (sched (scheduler_ticks (take k nows) (scheduler_set_timer_duration 1 f)))
              = 1
          \<and> timeout_callback_calls
               (sched (scheduler_ticks (take k nows) (scheduler_set_timer_duration 1 f)))
              = timeout_callback_calls (sched f))
       \<and> timeout_callback_calls
            (sched (scheduler_ticks (nows @ [now]) (scheduler_set_timer_duration 1 f)))
           = (if s_timeout_callback (sched f) then Suc (timeout_callback_calls (sched f))
              else timeout_callback_calls (sched f))
       \<and> (\<not> appointment_due now (sched f) \<longrightarrow>
            \<not> s_timer_running (sched (scheduler_ticks (nows @ [now]) (scheduler_set_timer_duration 1 f)))
          \<and> s_timer_remaining (sched (scheduler_ticks (nows @ [now]) (scheduler_set_timer_duration 1 f)))
              = 0
          \<and> s_sched_state (sched (scheduler_ticks (nows @ [now]) (scheduler_set_timer_duration 1 f)))
              = SCHED_STATE_TIMEOUT
          \<and> \<not> s_power_on (temp_ctl (scheduler_ticks (nows @ [now]) (scheduler_set_timer_duration 1 f)))
          \<and> heater_duty (temp_ctl (scheduler_ticks (nows @ [now]) (scheduler_set_timer_duration 1 f)))
              = 0)
       \<and> (appointment_due now (sched f) \<longrightarrow>
            s_timer_running (sched (scheduler_ticks (nows @ [now]) (scheduler_set_timer_duration 1 f)))
          \<and> s_timer_seconds (sched (scheduler_ticks (nows @ [now]) (scheduler_set_timer_duration 1 f)))
              = 60
          \<and> s_sched_state (sched (scheduler_ticks (nows @ [now]) (scheduler_set_timer_duration 1 f)))
              = SCHED_STATE_TIMER_RUNNING
          \<and> s_power_on (temp_ctl (scheduler_ticks (nows @ [now]) (scheduler_set_timer_duration 1 f))))"
proof -
  let ?f0 = "scheduler_set_timer_duration 1 f"
  have early: "\<forall>k\<le>59.
            s_timer_running (sched (scheduler_ticks (take k nows) ?f0))
          \<and> s_sched_state (sched (scheduler_ticks (take k nows) ?f0)) = SCHED_STATE_TIMER_RUNNING
          \<and> s_power_on (temp_ctl (scheduler_ticks (take k nows) ?f0))
          \<and> s_timer_seconds (sched (scheduler_ticks (take k nows) ?f0)) = 60 - int k
          \<and> s_timer_remaining (sched (scheduler_ticks (take k nows) ?f0)) = 1
          \<and> timeout_callback_calls (sched (scheduler_ticks (take k nows) ?f0))
              = timeout_callback_calls (sched f)"
  proof (intro allI impI)
    fix k :: nat
    assume k: "k \<le> 59"
    with assms(2) have len: "length (take k nows) = k" by simp
    from k have "k < 60" by simp
    from one_minute_running[OF assms(1) len this] assms(1)
    show "s_timer_running (sched (scheduler_ticks (take k nows) ?f0))
          \<and> s_sched_state (sched (scheduler_ticks (take k nows) ?f0)) = SCHED_STATE_TIMER_RUNNING
          \<and> s_power_on (temp_ctl (scheduler_ticks (take k nows) ?f0))
          \<and> s_timer_seconds (sched (scheduler_ticks (take k nows) ?f0)) = 60 - int k
          \<and> s_timer_remaining (sched (scheduler_ticks (take k nows) ?f0)) = 1
          \<and> timeout_callback_calls (sched (scheduler_ticks (take k nows) ?f0))
              = timeout_callback_calls (sched f)"
      by simp
  qed
  show ?thesis
    using early by (simp add: one_minute_last_tick[OF assms] Let_def)
qed

lemma fw_on_power: "s_power_on (temp_ctl fw_on)"
  by (simp add: fw_on_def)

lemma fw_on_armed_power: "s_power_on (temp_ctl fw_on_armed)"
  by (simp add: fw_on_armed_def fw_on_def)

lemma fw_on_not_due: "\<not> appointment_due now (sched fw_on)"
  by (simp add: appointment_due_def fw_on_def fw_init_def scheduler_init_def
        scheduler_set_timeout_callback_def)

lemma start_minutes_0830: "start_minutes_of 8 30 = 505"
  by (simp add: start_minutes_of_def CONFIG_PREHEAT_TIME_MINUTES_def)

lemma fw_on_armed_due: "appointment_due (clock 8 25) (sched fw_on_armed)"
  by (simp add: appointment_due_def fw_on_armed_def scheduler_set_schedule_time_def
        parse_0830 format_0830 start_minutes_0830 clock_def)

theorem one_minute_timer_expires_witness:
  "s_power_on (temp_ctl fw_on) \<and> length (replicate 59 (clock 8 24)) = 59
 \<and> (59::nat) \<le> 59 \<and> \<not> appointment_due (clock 8 25) (sched fw_on)
 \<and> s_timer_running (sched (scheduler_ticks (take 59 (replicate 59 (clock 8 24)))
      (scheduler_set_timer_duration 1 fw_on)))
 \<and> s_timer_seconds (sched (scheduler_ticks (take 59 (replicate 59 (clock 8 24)))
      (scheduler_set_timer_duration 1 fw_on))) = 1
 \<and> s_sched_state (sched (scheduler_ticks (replicate 59 (clock 8 24) @ [clock 8 25])
      (scheduler_set_timer_duration 1 fw_on))) = SCHED_STATE_TIMEOUT
 \<and> \<not> s_power_on (temp_ctl (scheduler_ticks (replicate 59 (clock 8 24) @ [clock 8 25])
      (scheduler_set_timer_duration 1 fw_on)))
 \<and> timeout_callback_calls (sched (scheduler_ticks (replicate 59 (clock 8 24) @ [clock 8 25])
      (scheduler_set_timer_duration 1 fw_on))) = 1
 \<and> appointment_due (clock 8 25) (sched fw_on_armed)
 \<and> s_timer_seconds (sched (scheduler_ticks (replicate 59 (clock 8 24) @ [clock 8 25])
      (scheduler_set_timer_duration 1 fw_on_armed))) = 60"
proof -
  have len: "length (replicate 59 (clock 8 24)) = 59" by simp
  have cb: "s_timeout_callback (sched fw_on)" "timeout_callback_calls (sched fw_on) = 0"
    by (simp_all add: fw_on_def fw_init_def scheduler_init_def scheduler_set_timeout_callback_def)
  from one_minute_timer_expires[OF fw_on_power len, of "clock 8 25"]
  have a: "(\<forall>k\<le>59.
        s_timer_running (sched (scheduler_ticks (take k (replicate 59 (clock 8 24)))
          (scheduler_set_timer_duration 1 fw_on)))
      \<and> s_timer_seconds (sched (scheduler_ticks (take k (replicate 59 (clock 8 24)))
          (scheduler_set_timer_duration 1 fw_on))) = 60 - int k)"
    and b: "timeout_callback_calls (sched (scheduler_ticks (replicate 59 (clock 8 24) @ [clock 8 25])
          (scheduler_set_timer_duration 1 fw_on))) = 1"
    and c: "s_sched_state (sched (scheduler_ticks (replicate 59 (clock 8 24) @ [clock 8 25])
          (scheduler_set_timer_duration 1 fw_on))) = SCHED_STATE_TIMEOUT"
    and d: "\<not> s_power_on (temp_ctl (scheduler_ticks (replicate 59 (clock 8 24) @ [clock 8 25])
          (scheduler_set_timer_duration 1 fw_on)))"
    using fw_on_not_due[of "clock 8 25"] cb by simp_all
  from a have "s_timer_running (sched (scheduler_ticks (take 59 (replicate 59 (clock 8 24)))
          (scheduler_set_timer_duration 1 fw_on)))
      \<and> s_timer_seconds (sched (scheduler_ticks (take 59 (replicate 59 (clock 8 24)))
          (scheduler_set_timer_duration 1 fw_on))) = 60 - int 59"
    by blast
  moreover
  from one_minute_timer_expires[OF fw_on_armed_power len, of "clock 8 25"] fw_on_armed_due
  have "s_timer_seconds (sched (scheduler_ticks (replicate 59 (clock 8 24) @ [clock 8 25])
      (scheduler_set_timer_duration 1 fw_on_armed))) = 60"
    by simp
  ultimately show ?thesis
    using b c d fw_on_power fw_on_not_due[of "clock 8 25"] fw_on_armed_due by simp
qed

text \<open>
  The claim as worded fails when an appointment is due at the tick of the expiry. Power
  is on, an appointment for 08:30 is stored, the duration is set to one minute; 59
  ticks pass at 08:24 and the 60th comes at 08:25, five minutes before the
  appointment. After that tick the timer is running, the state is \<^verbatim>\<open>TIMER_RUNNING\<close>
  and power is on.
\<close>

theorem one_minute_timer_expires_counterexample:
  "s_power_on (temp_ctl fw_on_armed)
 \<and> s_timer_running (sched (scheduler_ticks (replicate 59 (clock 8 24) @ [clock 8 25]) fw_timer))
 \<and> s_sched_state (sched (scheduler_ticks (replicate 59 (clock 8 24) @ [clock 8 25]) fw_timer))
      = SCHED_STATE_TIMER_RUNNING
 \<and> s_timer_remaining (sched (scheduler_ticks (replicate 59 (clock 8 24) @ [clock 8 25]) fw_timer))
      = 1
 \<and> s_power_on (temp_ctl (scheduler_ticks (replicate 59 (clock 8 24) @ [clock 8 25]) fw_timer))"
proof -
  have len: "length (replicate 59 (clock 8 24)) = 59" by simp
  show ?thesis
    unfolding fw_timer_def
    using fw_on_armed_due fw_on_armed_power
    by (simp add: one_minute_last_tick[OF fw_on_armed_power len] Let_def)
qed

subsection \<open>The paused countdown\<close>

lemma tick_paused:
  assumes "\<not> s_power_on (temp_ctl f)" and "\<not> appointment_due now (sched f)"
  shows "scheduler_timer_callback mutex_taken now f = f"
proof -
  from assms(1) have "countdown_logic f = f" by (simp add: countdown_paused)
  moreover from assms(2) have "\<not> schedule_triggers now f" by (simp add: schedule_triggers_def)
  ultimately show ?thesis by (simp add: scheduler_timer_callback_def schedule_check_idle)
qed

lemma ticks_paused:
  assumes "\<not> s_power_on (temp_ctl f)" and "\<forall>now\<in>set nows. \<not> appointment_due now (sched f)"
  shows "scheduler_ticks nows f = f"
  using assms by (induction nows) (simp_all add: tick_paused)

lemma tick_paused_fires:
  assumes "\<not> s_power_on (temp_ctl f)" and "appointment_due now (sched f)"
  shows "scheduler_timer_callback True now f =
     \<lparr>temp_ctl = temp_control_set_power True (temp_ctl f),
      sched = (sched f)\<lparr>s_schedule_active := False,
                        s_timer_running := True,
                        s_timer_seconds := s_timer_duration (sched f) * 60,
                        s_timer_remaining := s_timer_duration (sched f),
                        s_sched_state := SCHED_STATE_TIMER_RUNNING\<rparr>\<rparr>"
proof -
  from assms(1) have "countdown_logic f = f" by (simp add: countdown_paused)
  moreover from assms have "schedule_triggers now f"
    by (simp add: schedule_triggers_def temp_control_get_power_def)
  ultimately show ?thesis by (simp add: scheduler_timer_callback_def schedule_check_fires)
qed

text \<open>
  Claim C7, as the code has it. A tick taken while the timer is running and power is
  off, at which no appointment is due, changes nothing at all: the seconds, the
  minutes, the running flag and the scheduler state are what they were, whether or not
  the tick got the mutex, and so it is for any number of consecutive such ticks. A
  tick at which an armed appointment is due is not a pause: it switches power on and
  restarts the countdown at the configured duration.
\<close>

theorem paused_countdown_unchanged:
  assumes "s_timer_running (sched f)" and "\<not> s_power_on (temp_ctl f)"
  shows "(\<not> appointment_due now (sched f) \<longrightarrow> scheduler_timer_callback mutex_taken now f = f)
       \<and> ((\<forall>now\<in>set nows. \<not> appointment_due now (sched f)) \<longrightarrow> scheduler_ticks nows f = f)
       \<and> (appointment_due now (sched f) \<longrightarrow>
            s_timer_seconds (sched (scheduler_timer_callback True now f))
              = s_timer_duration (sched f) * 60
          \<and> s_timer_remaining (sched (scheduler_timer_callback True now f))
              = s_timer_duration (sched f)
          \<and> s_timer_running (sched (scheduler_timer_callback True now f))
          \<and> s_sched_state (sched (scheduler_timer_callback True now f))
              = SCHED_STATE_TIMER_RUNNING
          \<and> s_power_on (temp_ctl (scheduler_timer_callback True now f)))"
  using assms(2) by (simp add: tick_paused ticks_paused tick_paused_fires)

lemma fw_ticked_eq:
  "fw_ticked = fw_on\<lparr>sched := (sched fw_on)\<lparr>s_timer_duration := 1, s_timer_seconds := 59,
                           s_timer_remaining := 1, s_timer_running := True,
                           s_sched_state := SCHED_STATE_TIMER_RUNNING\<rparr>\<rparr>"
proof -
  have "length [clock 8 24] = 1" "(1::nat) < 60" by simp_all
  from one_minute_running[OF fw_on_power this] show ?thesis
    by (simp add: fw_ticked_def)
qed

lemma fw_paused_facts:
  "s_timer_running (sched fw_paused)" "\<not> s_power_on (temp_ctl fw_paused)"
  "s_timer_seconds (sched fw_paused) = 59" "s_timer_duration (sched fw_paused) = 1"
  "s_schedule_active (sched fw_paused)" "s_schedule_time (sched fw_paused) = ''08:30''"
  by (simp_all add: fw_paused_def fw_ticked_eq scheduler_set_schedule_time_def parse_0830
        format_0830)

lemma fw_paused_due: "appointment_due (clock h m) (sched fw_paused) \<longleftrightarrow> h * 60 + m = 505"
  by (simp add: appointment_due_def fw_paused_facts parse_0830 start_minutes_0830 clock_def)

theorem paused_countdown_unchanged_witness:
  "s_timer_running (sched fw_paused) \<and> \<not> s_power_on (temp_ctl fw_paused)
 \<and> \<not> appointment_due (clock 8 24) (sched fw_paused)
 \<and> \<not> appointment_due (clock 8 23) (sched fw_paused)
 \<and> appointment_due (clock 8 25) (sched fw_paused)
 \<and> scheduler_timer_callback True (clock 8 24) fw_paused = fw_paused
 \<and> scheduler_ticks [clock 8 23, clock 8 24] fw_paused = fw_paused
 \<and> s_timer_seconds (sched (scheduler_timer_callback True (clock 8 25) fw_paused)) = 60"
  using paused_countdown_unchanged[OF fw_paused_facts(1,2), of "clock 8 24" True
          "[clock 8 23, clock 8 24]"]
        paused_countdown_unchanged[OF fw_paused_facts(1,2), of "clock 8 25" True "[]"]
  by (simp add: fw_paused_due fw_paused_facts)

text \<open>
  The claim as worded fails when an appointment is due. The countdown of one minute
  has run for one second, power is switched off and an appointment for 08:30 is
  stored. The tick at 08:25 finds the timer running and power off, and sets the 59
  seconds that were left back to 60.
\<close>

theorem paused_countdown_unchanged_counterexample:
  "s_timer_running (sched fw_paused) \<and> \<not> s_power_on (temp_ctl fw_paused)
 \<and> s_timer_seconds (sched fw_paused) = 59
 \<and> s_timer_seconds (sched (scheduler_timer_callback True (clock 8 25) fw_paused)) = 60"
proof -
  have "appointment_due (clock 8 25) (sched fw_paused)" by (simp add: fw_paused_due)
  from tick_paused_fires[OF fw_paused_facts(2) this] show ?thesis
    by (simp add: fw_paused_facts)
qed

subsection \<open>The appointment\<close>

lemma countdown_keeps_schedule:
  "s_schedule_active (sched (countdown_logic f)) = s_schedule_active (sched f)"
  "s_schedule_time (sched (countdown_logic f)) = s_schedule_time (sched f)"
  "s_timer_duration (sched (countdown_logic f)) = s_timer_duration (sched f)"
  by (simp_all add: countdown_logic_def Let_def)

lemma countdown_power:
  "\<not> s_power_on (temp_ctl (countdown_logic f)) \<longleftrightarrow>
     \<not> s_power_on (temp_ctl f)
   \<or> s_timer_running (sched f) \<and> s_timer_seconds (sched f) \<le> 1"
  by (auto simp: countdown_logic_def temp_control_get_power_def Let_def)

lemma tick_keeps_disarmed:
  assumes "\<not> s_schedule_active (sched f)"
  shows "\<not> s_schedule_active (sched (scheduler_timer_callback mutex_taken now f))"
proof -
  from assms have "\<not> schedule_triggers now (countdown_logic f)"
    by (simp add: schedule_triggers_def appointment_due_def countdown_keeps_schedule)
  with assms show ?thesis
    by (simp add: scheduler_timer_callback_def schedule_check_idle countdown_keeps_schedule)
qed

lemma ticks_keep_disarmed:
  "\<not> s_schedule_active (sched f) \<Longrightarrow> \<not> s_schedule_active (sched (scheduler_ticks nows f))"
  by (induction nows arbitrary: f) (simp_all add: tick_keeps_disarmed)

lemma triggers_iff:
  "schedule_triggers now f \<longleftrightarrow>
     s_schedule_active (sched f) \<and> \<not> s_power_on (temp_ctl f)
   \<and> (\<exists>h mi. parse_schedule_time (Some (s_schedule_time (sched f))) = Some (h, mi)
          \<and> hour now * 60 + minute now = start_minutes_of h mi)"
  by (auto simp: schedule_triggers_def appointment_due_def temp_control_get_power_def
           split: option.splits)

lemma wrap_mod:
  assumes "- 1440 \<le> (x::int)" "x < 1440"
  shows "(if x < 0 then x + 1440 else x) = x mod 1440"
proof (cases "x < 0")
  case True
  with assms have "0 \<le> x + 1440" "x + 1440 < 1440" by simp_all
  then have "(x + 1440) mod 1440 = x + 1440" by (rule mod_pos_pos_trivial)
  moreover have "(x + 1440) mod 1440 = x mod 1440" by (rule mod_add_self2)
  ultimately show ?thesis using True by simp
next
  case False
  with assms have "x mod 1440 = x" by (intro mod_pos_pos_trivial) simp_all
  with False show ?thesis by simp
qed

lemma start_minutes_of_mod:
  assumes "0 \<le> h" "h \<le> 23" "0 \<le> mi" "mi \<le> 59"
  shows "start_minutes_of h mi = (h * 60 + mi - CONFIG_PREHEAT_TIME_MINUTES) mod 1440"
proof -
  define x where "x = h * 60 + mi - CONFIG_PREHEAT_TIME_MINUTES"
  from assms have "- 1440 \<le> x" "x < 1440"
    by (simp_all add: x_def CONFIG_PREHEAT_TIME_MINUTES_def)
  from wrap_mod[OF this, unfolded x_def] show ?thesis
    by (simp add: start_minutes_of_def Let_def split: if_splits)
qed

text \<open>
  Claim C8. Write \<open>m\<close> for the state that the countdown block of a tick leaves to the
  appointment block: the armed flag is the one the tick started with, and power is off
  in \<open>m\<close> exactly when it was off at the start of the tick or the countdown expired in
  this tick. Unless the schedule is armed and power is off in \<open>m\<close>, the appointment
  block does nothing. Whenever it does anything, the schedule is armed,
  power is off, the stored time parses to some \<open>h\<close> and \<open>mi\<close>, and the minute of the
  day on the clock equals the start minute exactly. When it fires, the tick ends with
  power on, the schedule disarmed, and the countdown running from the configured
  duration in state \<^verbatim>\<open>TIMER_RUNNING\<close>; the schedule then stays disarmed through all
  further ticks, so one arming fires at most once. For a parsed time the start minute
  is the scheduled minute less the preheat lead, taken modulo 1440, hence within
  \<open>[0, 1440)\<close>; the stored time 00:02 starts at minute 1437.
\<close>

theorem appointment_check:
  "s_schedule_active (sched (countdown_logic f)) = s_schedule_active (sched f)
 \<and> (\<not> s_power_on (temp_ctl (countdown_logic f)) \<longleftrightarrow>
      \<not> s_power_on (temp_ctl f)
    \<or> s_timer_running (sched f) \<and> s_timer_seconds (sched f) \<le> 1)
 \<and> (\<not> (s_schedule_active (sched (countdown_logic f))
        \<and> \<not> s_power_on (temp_ctl (countdown_logic f))) \<longrightarrow>
      scheduler_timer_callback True now f = countdown_logic f)
 \<and> (scheduler_timer_callback True now f \<noteq> countdown_logic f \<longrightarrow>
      s_schedule_active (sched (countdown_logic f))
    \<and> \<not> s_power_on (temp_ctl (countdown_logic f))
    \<and> (\<exists>h mi. parse_schedule_time (Some (s_schedule_time (sched (countdown_logic f))))
                  = Some (h, mi)
             \<and> hour now * 60 + minute now = start_minutes_of h mi))
 \<and> (schedule_triggers now (countdown_logic f) \<longrightarrow>
      s_power_on (temp_ctl (scheduler_timer_callback True now f))
    \<and> \<not> s_schedule_active (sched (scheduler_timer_callback True now f))
    \<and> s_timer_running (sched (scheduler_timer_callback True now f))
    \<and> s_timer_seconds (sched (scheduler_timer_callback True now f))
        = s_timer_duration (sched f) * 60
    \<and> s_timer_remaining (sched (scheduler_timer_callback True now f))
        = s_timer_duration (sched f)
    \<and> s_sched_state (sched (scheduler_timer_callback True now f)) = SCHED_STATE_TIMER_RUNNING
    \<and> \<not> s_schedule_active
          (sched (scheduler_ticks nows (scheduler_timer_callback True now f))))
 \<and> (parse_schedule_time time_str = Some (h, mi) \<longrightarrow>
      start_minutes_of h mi = (h * 60 + mi - CONFIG_PREHEAT_TIME_MINUTES) mod 1440
    \<and> 0 \<le> start_minutes_of h mi \<and> start_minutes_of h mi < 1440)
 \<and> parse_schedule_time (Some ''00:02'') = Some (0, 2)
 \<and> start_minutes_of 0 2 = 1437"
proof -
  let ?m = "countdown_logic f"
  have tick: "scheduler_timer_callback True now f = schedule_check_logic now ?m"
    by (simp add: scheduler_timer_callback_def)
  have a: "\<not> (s_schedule_active (sched ?m) \<and> \<not> s_power_on (temp_ctl ?m)) \<longrightarrow>
      scheduler_timer_callback True now f = ?m"
    unfolding tick by (auto simp: triggers_iff intro: schedule_check_idle)
  have b: "scheduler_timer_callback True now f \<noteq> ?m \<longrightarrow>
      s_schedule_active (sched ?m) \<and> \<not> s_power_on (temp_ctl ?m)
    \<and> (\<exists>h mi. parse_schedule_time (Some (s_schedule_time (sched ?m))) = Some (h, mi)
             \<and> hour now * 60 + minute now = start_minutes_of h mi)"
    unfolding tick using schedule_check_idle[of now ?m] triggers_iff[of now ?m] by blast
  have c: "schedule_triggers now ?m \<longrightarrow>
      s_power_on (temp_ctl (scheduler_timer_callback True now f))
    \<and> \<not> s_schedule_active (sched (scheduler_timer_callback True now f))
    \<and> s_timer_running (sched (scheduler_timer_callback True now f))
    \<and> s_timer_seconds (sched (scheduler_timer_callback True now f))
        = s_timer_duration (sched f) * 60
    \<and> s_timer_remaining (sched (scheduler_timer_callback True now f))
        = s_timer_duration (sched f)
    \<and> s_sched_state (sched (scheduler_timer_callback True now f)) = SCHED_STATE_TIMER_RUNNING
    \<and> \<not> s_schedule_active
          (sched (scheduler_ticks nows (scheduler_timer_callback True now f)))"
  proof
    assume t: "schedule_triggers now ?m"
    have off: "\<not> s_schedule_active (sched (schedule_check_logic now ?m))"
      by (simp add: schedule_check_fires[OF t])
    from ticks_keep_disarmed[OF off] show
     "s_power_on (temp_ctl (scheduler_timer_callback True now f))
    \<and> \<not> s_schedule_active (sched (scheduler_timer_callback True now f))
    \<and> s_timer_running (sched (scheduler_timer_callback True now f))
    \<and> s_timer_seconds (sched (scheduler_timer_callback True now f))
        = s_timer_duration (sched f) * 60
    \<and> s_timer_remaining (sched (scheduler_timer_callback True now f))
        = s_timer_duration (sched f)
    \<and> s_sched_state (sched (scheduler_timer_callback True now f)) = SCHED_STATE_TIMER_RUNNING
    \<and> \<not> s_schedule_active
          (sched (scheduler_ticks nows (scheduler_timer_callback True now f)))"
      unfolding tick by (simp add: schedule_check_fires[OF t] countdown_keeps_schedule)
  qed
  have d: "parse_schedule_time time_str = Some (h, mi) \<longrightarrow>
      start_minutes_of h mi = (h * 60 + mi - CONFIG_PREHEAT_TIME_MINUTES) mod 1440
    \<and> 0 \<le> start_minutes_of h mi \<and> start_minutes_of h mi < 1440"
  proof
    assume "parse_schedule_time time_str = Some (h, mi)"
    from parse_schedule_time_range[OF this]
    have r: "0 \<le> h" "h \<le> 23" "0 \<le> mi" "mi \<le> 59" by simp_all
    from start_minutes_of_mod[OF r] start_minutes_of_range[OF r]
    show "start_minutes_of h mi = (h * 60 + mi - CONFIG_PREHEAT_TIME_MINUTES) mod 1440
       \<and> 0 \<le> start_minutes_of h mi \<and> start_minutes_of h mi < 1440" by simp
  qed
  have e: "start_minutes_of 0 2 = 1437"
    by (simp add: start_minutes_of_def CONFIG_PREHEAT_TIME_MINUTES_def)
  from a b c d e parse_0002 countdown_keeps_schedule(1)[of f] countdown_power[of f]
  show ?thesis by blast
qed

lemma fw_armed_facts:
  "\<not> s_power_on (temp_ctl fw_armed)" "\<not> s_timer_running (sched fw_armed)"
  "s_schedule_active (sched fw_armed)" "s_schedule_time (sched fw_armed) = ''08:30''"
  "s_timer_duration (sched fw_armed) = 60"
  "s_sched_state (sched fw_armed) = SCHED_STATE_SCHEDULED"
  by (simp_all add: fw_armed_def fw_init_def temp_control_init_def scheduler_init_def
        scheduler_set_timeout_callback_def scheduler_set_schedule_time_def parse_0830
        format_0830)

lemma fw_armed_countdown: "countdown_logic fw_armed = fw_armed"
  by (simp add: countdown_paused fw_armed_facts)

lemma fw_armed_triggers: "schedule_triggers (clock h m) fw_armed \<longleftrightarrow> h * 60 + m = 505"
  by (simp add: schedule_triggers_def appointment_due_def temp_control_get_power_def
        fw_armed_facts parse_0830 start_minutes_0830 clock_def)

text \<open>
  The appointment for 08:30 with power off: nothing at 08:24, the trigger at 08:25,
  nothing at 08:26.
\<close>

theorem appointment_check_witness:
  "\<not> (s_schedule_active (sched (countdown_logic fw_on))
      \<and> \<not> s_power_on (temp_ctl (countdown_logic fw_on)))
 \<and> scheduler_timer_callback True (clock 8 25) fw_on = countdown_logic fw_on
 \<and> scheduler_timer_callback True (clock 8 24) fw_armed = fw_armed
 \<and> scheduler_timer_callback True (clock 8 25) fw_armed \<noteq> countdown_logic fw_armed
 \<and> schedule_triggers (clock 8 25) (countdown_logic fw_armed)
 \<and> s_power_on (temp_ctl (scheduler_timer_callback True (clock 8 25) fw_armed))
 \<and> s_timer_seconds (sched (scheduler_timer_callback True (clock 8 25) fw_armed)) = 3600
 \<and> \<not> s_schedule_active (sched (scheduler_ticks [clock 8 26]
        (scheduler_timer_callback True (clock 8 25) fw_armed)))
 \<and> parse_schedule_time (Some ''08:30'') = Some (8, 30)
 \<and> start_minutes_of 8 30 = 505"
proof -
  have on: "\<not> (s_schedule_active (sched (countdown_logic fw_on))
      \<and> \<not> s_power_on (temp_ctl (countdown_logic fw_on)))"
    by (simp add: countdown_keeps_schedule fw_on_def fw_init_def scheduler_init_def
          scheduler_set_timeout_callback_def)
  have t: "schedule_triggers (clock 8 25) (countdown_logic fw_armed)"
    by (simp add: fw_armed_countdown fw_armed_triggers)
  have n: "\<not> schedule_triggers (clock 8 24) (countdown_logic fw_armed)"
    by (simp add: fw_armed_countdown fw_armed_triggers)
  have q: "scheduler_timer_callback True (clock 8 24) fw_armed = fw_armed"
    using n by (simp add: scheduler_timer_callback_def schedule_check_idle fw_armed_countdown)
  have ne: "scheduler_timer_callback True (clock 8 25) fw_armed \<noteq> countdown_logic fw_armed"
  proof
    assume "scheduler_timer_callback True (clock 8 25) fw_armed = countdown_logic fw_armed"
    then have "s_schedule_active (sched (scheduler_timer_callback True (clock 8 25) fw_armed))"
      by (simp add: fw_armed_countdown fw_armed_facts)
    then show False
      by (simp add: scheduler_timer_callback_def schedule_check_fires[OF t])
  qed
  show ?thesis
    using appointment_check[of fw_on "clock 8 25" "[]" "Some ''08:30''" 8 30]
      appointment_check[of fw_armed "clock 8 25" "[clock 8 26]" "Some ''08:30''" 8 30]
      on t q ne
    by (simp add: parse_0830 start_minutes_0830 fw_armed_facts)
qed

subsection \<open>Rejected schedule times\<close>

lemma parse_none_iff:
  "parse_schedule_time (Some str) = None \<longleftrightarrow>
     length str < 5
   \<or> (\<forall>h mi. sscanf_d_colon_d str = [h, mi] \<longrightarrow> h < 0 \<or> 23 < h \<or> mi < 0 \<or> 59 < mi)"
  by (auto simp: parse_schedule_time_def split: list.splits)

text \<open>
  Claim C9. A string is rejected by \<^verbatim>\<open>parse_schedule_time\<close> exactly when it has fewer
  than five characters or \<^verbatim>\<open>sscanf\<close> does not convert two numbers from it with the
  first in 0..23 and the second in 0..59; a null pointer is rejected too. For every
  rejected argument \<^verbatim>\<open>scheduler_set_schedule_time\<close> returns the scheduler statics as
  they were: stored time, armed flag, state and all the rest. The strings
  \<^verbatim>\<open>25:99\<close> and \<^verbatim>\<open>abc\<close> are rejected.
\<close>

theorem invalid_schedule_time_rejected:
  "(parse_schedule_time time_str = None \<longrightarrow> scheduler_set_schedule_time time_str sc = sc)
 \<and> (parse_schedule_time (Some str) = None \<longleftrightarrow>
      length str < 5
    \<or> (\<forall>h mi. sscanf_d_colon_d str = [h, mi] \<longrightarrow> h < 0 \<or> 23 < h \<or> mi < 0 \<or> 59 < mi))
 \<and> parse_schedule_time None = None
 \<and> parse_schedule_time (Some ''25:99'') = None
 \<and> parse_schedule_time (Some ''abc'') = None"
proof -
  have a: "parse_schedule_time time_str = None \<longrightarrow> scheduler_set_schedule_time time_str sc = sc"
    by (cases time_str) (simp_all add: scheduler_set_schedule_time_def)
  have b: "parse_schedule_time None = None" by (simp add: parse_schedule_time_def)
  have c: "parse_schedule_time (Some ''25:99'') = None" by (simp add: scan_defs)
  have d: "parse_schedule_time (Some ''abc'') = None" by (simp add: scan_defs)
  from a b c d parse_none_iff[of str] show ?thesis by blast
qed

theorem invalid_schedule_time_rejected_witness:
  "parse_schedule_time (Some ''25:99'') = None
 \<and> sscanf_d_colon_d ''25:99'' = [25, 99]
 \<and> scheduler_set_schedule_time (Some ''25:99'') (sched fw_armed) = sched fw_armed
 \<and> s_schedule_time (scheduler_set_schedule_time (Some ''25:99'') (sched fw_armed)) = ''08:30''
 \<and> s_schedule_active (scheduler_set_schedule_time (Some ''25:99'') (sched fw_armed))
 \<and> s_sched_state (scheduler_set_schedule_time (Some ''25:99'') (sched fw_armed))
      = SCHED_STATE_SCHEDULED"
proof -
  have s: "sscanf_d_colon_d ''25:99'' = [25, 99]"
    by (simp add: sscanf_d_colon_d_def scan_d_def isspace_def isdigit_def digit_value_def)
  show ?thesis
    using invalid_schedule_time_rejected[of "Some ''25:99''" "sched fw_armed" "''25:99''"] s
    by (simp add: fw_armed_facts)
qed

end
